theory Spec2Isabelle
  imports Complex_Main
begin

section \<open>The Aura engine of \<open>src/lib/aura.ts\<close>\<close>

text \<open>
  The engine is a pure function from \<open>AuraInputs\<close> to \<open>AuraResult\<close>. A TypeScript
  \<open>number\<close> is an IEEE 754 double; the model takes its values in the reals. The
  affinities of \<open>pickAuraType\<close> and the weighted score of \<open>computeAura\<close> are sums of
  products with decimal weights, and which affinity is greatest, or on which side of a
  half the score falls, can hang on the last bit: there every decimal literal is the
  double nearest to it and every multiplication and addition is rounded to the nearest
  double, ties to even (\<open>binary64\<close>, \<open>dmul\<close>, \<open>dadd\<close> below). The normalisation
  \<open>logScore\<close>, the raw activity sum and the style blend are computed in exact
  arithmetic, \<open>Math.log10\<close> being the real logarithm to base 10 (JavaScript leaves its
  last bits to the implementation). \<open>NaN\<close>, the infinities and results beyond the
  largest double are outside this model. An optional field (\<open>longCastRatio?: number\<close>)
  is an \<open>option\<close>, \<open>None\<close> when the caller leaves it out. A string is the list of the
  bytes of its UTF-8 encoding, as they stand in the source file.
\<close>

subsection \<open>Data model\<close>

datatype AuraType = BUILDER | CREATOR | INFLUENCER | THINKER | DEGEN | LURKER

record AuraInputs =
  casts :: real
  replies :: real
  reactionsReceived :: real
  followers :: real
  longCastRatio :: "real option"
  mediaCastRatio :: "real option"
  baseTxCount :: "real option"

record AuraBreakdown =
  activity :: real
  impact :: real
  social :: real
  style :: real
  onchain :: real

record AuraResult =
  type :: AuraType
  score :: real
  emoji :: string
  label :: string
  description :: string
  breakdown :: AuraBreakdown

subsection \<open>Numeric helpers\<close>

text \<open>\<open>Math.round\<close> rounds to the nearest integer, a tie going towards \<open>+\<infinity>\<close>.\<close>

definition Math_round :: "real \<Rightarrow> real" where
  "Math_round x = of_int \<lfloor>x + 1 / 2\<rfloor>"

definition Math_log10 :: "real \<Rightarrow> real" where
  "Math_log10 x = log 10 x"

text \<open>The operator \<open>??\<close>: the right operand when the left one is absent.\<close>

definition nullish :: "'a option \<Rightarrow> 'a \<Rightarrow> 'a" where
  "nullish x d = (case x of None \<Rightarrow> d | Some y \<Rightarrow> y)"

definition clamp :: "real \<Rightarrow> real \<Rightarrow> real \<Rightarrow> real" where
  "clamp n mn mx = min mx (max mn n)"

definition clamp01 :: "real \<Rightarrow> real" where
  "clamp01 n = clamp n 0 1"

definition logScore :: "real \<Rightarrow> real \<Rightarrow> real" where
  "logScore val cap =
     (let v = max 0 val;
          c = max 1 cap;
          r = Math_log10 (1 + v) / Math_log10 (1 + c)
      in Math_round (clamp (r * 100) 0 100))"

subsection \<open>Double arithmetic\<close>

text \<open>
  Rounding to the nearest integer, a tie going to the even one, and with it the
  rounding of a real to the nearest double: for \<open>x\<close> with \<open>2^e \<le> |x| < 2^(e+1)\<close> the
  doubles are the multiples of \<open>2^(e-52)\<close>, and of \<open>2^(-1074)\<close> below the normal range.
\<close>

definition roundTiesToEven :: "real \<Rightarrow> int" where
  "roundTiesToEven y =
     (let n = \<lfloor>y\<rfloor>
      in if y - of_int n < 1 / 2 then n
         else if 1 / 2 < y - of_int n then n + 1
         else if even n then n else n + 1)"

definition binary64 :: "real \<Rightarrow> real" where
  "binary64 x =
     (if x = 0 then 0
      else let e = max (- 1022) \<lfloor>log 2 \<bar>x\<bar>\<rfloor>;
               q = 2 powr (of_int e - 52)
           in q * of_int (roundTiesToEven (x / q)))"

text \<open>The operators \<open>*\<close> and \<open>+\<close> on doubles.\<close>

definition dmul :: "real \<Rightarrow> real \<Rightarrow> real" where
  "dmul x y = binary64 (x * y)"

definition dadd :: "real \<Rightarrow> real \<Rightarrow> real" where
  "dadd x y = binary64 (x + y)"

text \<open>
  The decimal literals of the affinities and of the score: \<open>0.6\<close> in the source is the
  double nearest to 6/10 (\<open>0.30\<close>, \<open>0.20\<close> and \<open>0.10\<close> are the doubles of \<open>0.3\<close>,
  \<open>0.2\<close> and \<open>0.1\<close>).
\<close>

definition lit_0_05 :: real where
  "lit_0_05 = binary64 (5 / 100)"

definition lit_0_1 :: real where
  "lit_0_1 = binary64 (1 / 10)"

definition lit_0_15 :: real where
  "lit_0_15 = binary64 (15 / 100)"

definition lit_0_2 :: real where
  "lit_0_2 = binary64 (2 / 10)"

definition lit_0_3 :: real where
  "lit_0_3 = binary64 (3 / 10)"

definition lit_0_35 :: real where
  "lit_0_35 = binary64 (35 / 100)"

definition lit_0_45 :: real where
  "lit_0_45 = binary64 (45 / 100)"

definition lit_0_55 :: real where
  "lit_0_55 = binary64 (55 / 100)"

definition lit_0_6 :: real where
  "lit_0_6 = binary64 (6 / 10)"

definition lit_0_65 :: real where
  "lit_0_65 = binary64 (65 / 100)"

definition lit_0_7 :: real where
  "lit_0_7 = binary64 (7 / 10)"

definition lit_0_75 :: real where
  "lit_0_75 = binary64 (75 / 100)"

subsection \<open>Archetype selection\<close>

text \<open>
  \<open>Array.prototype.sort\<close> is stable: the comparator decides the order of two elements
  and elements it calls equal keep their order. Insertion from the right, an element
  going before the first one it does not compare greater than, computes that order.
  The comparator of \<open>pickAuraType\<close> subtracts two doubles; the rounded difference has
  the sign of the exact one, which is the one taken here.
\<close>

fun insert_cmp :: "('a \<Rightarrow> 'a \<Rightarrow> real) \<Rightarrow> 'a \<Rightarrow> 'a list \<Rightarrow> 'a list" where
  "insert_cmp cmp x [] = [x]"
| "insert_cmp cmp x (y # ys) =
     (if cmp x y \<le> 0 then x # y # ys else y # insert_cmp cmp x ys)"

definition Array_sort :: "('a \<Rightarrow> 'a \<Rightarrow> real) \<Rightarrow> 'a list \<Rightarrow> 'a list" where
  "Array_sort cmp xs = foldr (insert_cmp cmp) xs []"

text \<open>
  \<open>pickAuraType\<close> in three parts: its array \<open>entries\<close> of the five
  \<open>[type, affinity]\<close> pairs in the order the source lists them, its flag
  \<open>isLurker\<close>, and the choice between the two.
\<close>

definition entries :: "AuraInputs \<Rightarrow> AuraBreakdown \<Rightarrow> (AuraType \<times> real) list" where
  "entries inputs b =
     (let casts' = max 0 (casts inputs);
          replies' = max 0 (replies inputs);
          longRatio = clamp01 (nullish (longCastRatio inputs) 0);
          mediaRatio = clamp01 (nullish (mediaCastRatio inputs) 0);
          onchain' = onchain b;
          builder = dadd (dadd (dmul (activity b) lit_0_6) (dmul (impact b) lit_0_2))
                      (if replies' > casts' then 10 else 0);
          creator = dadd (dadd (dmul (style b) lit_0_75) (dmul (impact b) lit_0_15))
                      (dmul (activity b) lit_0_1);
          influencer = dadd (dadd (dmul (social b) lit_0_45) (dmul (impact b) lit_0_45))
                         (dmul (activity b) lit_0_1);
          thinker = dadd (dadd (dmul (style b) lit_0_55) (dmul (activity b) lit_0_35))
                      (if longRatio > lit_0_35 then 10 else 0);
          degen = dadd (dadd (dmul onchain' lit_0_65) (dmul (activity b) lit_0_2))
                    (dmul (impact b) lit_0_15)
      in [(BUILDER, builder), (CREATOR, creator), (INFLUENCER, influencer),
          (THINKER, thinker), (DEGEN, degen)])"

definition isLurker :: "AuraInputs \<Rightarrow> AuraBreakdown \<Rightarrow> bool" where
  "isLurker inputs b =
     (let casts' = max 0 (casts inputs);
          replies' = max 0 (replies inputs);
          totalActivity = casts' + replies'
      in totalActivity \<le> 2 \<or> (activity b \<le> 12 \<and> impact b \<le> 12 \<and> social b \<le> 12))"

definition pickAuraType :: "AuraInputs \<Rightarrow> AuraBreakdown \<Rightarrow> AuraType" where
  "pickAuraType inputs b =
     (if isLurker inputs b then LURKER
      else fst (hd (Array_sort (\<lambda>a b. snd b - snd a) (entries inputs b))))"

subsection \<open>Display metadata\<close>

definition meta :: "AuraType \<Rightarrow> string \<times> string \<times> string" where
  "meta t =
     (case t of
        BUILDER \<Rightarrow> ([CHR 0xF0, CHR 0x9F, CHR 0x9B, CHR 0xA0], ''Builder Aura'',
          ''You ship more than you talk. Keep building.'')
      | CREATOR \<Rightarrow> ([CHR 0xF0, CHR 0x9F, CHR 0x8E, CHR 0xA8], ''Creator Aura'',
          ''Taste + output. You make the timeline prettier.'')
      | INFLUENCER \<Rightarrow> ([CHR 0xF0, CHR 0x9F, CHR 0x93, CHR 0xA3], ''Influencer Aura'',
          ''You move attention. The feed follows your signal.'')
      | THINKER \<Rightarrow> ([CHR 0xF0, CHR 0x9F, CHR 0xA7, CHR 0xA0], ''Thinker Aura'',
          ''Depth merchant. Your replies add real brainpower.'')
      | DEGEN \<Rightarrow> ([CHR 0xF0, CHR 0x9F, CHR 0x8E, CHR 0xB0], ''Degen Aura'',
          ''Onchain instincts. You'' @ [CHR 0xE2, CHR 0x80, CHR 0x99]
            @ ''re early, often, and unbothered.'')
      | LURKER \<Rightarrow> ([CHR 0xF0, CHR 0x9F, CHR 0x91, CHR 0x80], ''Lurker Aura'',
          ''Silent watcher. Your aura is mysterious (and powerful).''))"

subsection \<open>The engine\<close>

text \<open>
  \<open>computeAura\<close> in two parts: the breakdown record it builds first, then the rest of
  its body.
\<close>

definition computeBreakdown :: "AuraInputs \<Rightarrow> AuraBreakdown" where
  "computeBreakdown inputs =
     (let activityRaw = casts inputs + replies inputs * (12 / 10);
          impactRaw = reactionsReceived inputs;
          socialRaw = followers inputs;
          activity' = logScore activityRaw 120;
          impact' = logScore impactRaw 250;
          social' = logScore socialRaw 2000;
          longRatio = clamp01 (nullish (longCastRatio inputs) 0);
          mediaRatio = clamp01 (nullish (mediaCastRatio inputs) 0);
          style' = Math_round (clamp (longRatio * 55 + mediaRatio * 45) 0 100);
          baseTx = max 0 (nullish (baseTxCount inputs) 0);
          onchain' = logScore baseTx 40
      in \<lparr>activity = activity', impact = impact', social = social',
          style = style', onchain = onchain'\<rparr>)"

text \<open>The source's local \<open>weighted\<close>, a function of the breakdown.\<close>

definition weighted :: "AuraBreakdown \<Rightarrow> real" where
  "weighted b =
     dadd (dadd (dadd (dadd (dmul (activity b) lit_0_35) (dmul (impact b) lit_0_3))
                   (dmul (social b) lit_0_2))
             (dmul (style b) lit_0_1))
       (dmul (onchain b) lit_0_05)"

definition computeAura :: "AuraInputs \<Rightarrow> AuraResult" where
  "computeAura inputs =
     (let b = computeBreakdown inputs;
          t = pickAuraType inputs b;
          (e, l, d) = meta t;
          s = (if t = LURKER
               then Math_round (clamp (dadd (dmul (weighted b) lit_0_7) 10) 0 60)
               else Math_round (clamp (weighted b) 0 100))
      in \<lparr>type = t, score = s, emoji = e, label = l, description = d, breakdown = b\<rparr>)"

section \<open>The specification's formulas and the inputs of its scenarios\<close>

text \<open>
  The specification's input invariant as a function: each count floored at 0, each ratio
  clamped into \<open>[0,1]\<close>, each absent optional field replaced by 0.
\<close>

definition spec_sanitize :: "AuraInputs \<Rightarrow> AuraInputs" where
  "spec_sanitize i =
     \<lparr>casts = max 0 (casts i),
      replies = max 0 (replies i),
      reactionsReceived = max 0 (reactionsReceived i),
      followers = max 0 (followers i),
      longCastRatio = Some (clamp01 (nullish (longCastRatio i) 0)),
      mediaCastRatio = Some (clamp01 (nullish (mediaCastRatio i) 0)),
      baseTxCount = Some (max 0 (nullish (baseTxCount i) 0))\<rparr>"

text \<open>
  The table of the specification's section 6, as it is printed there: the apostrophe of
  the DEGEN description is the ASCII character \<open>0x27\<close>.
\<close>

definition spec_display :: "AuraType \<Rightarrow> string \<times> string \<times> string" where
  "spec_display t =
     (case t of
        BUILDER \<Rightarrow> ([CHR 0xF0, CHR 0x9F, CHR 0x9B, CHR 0xA0], ''Builder Aura'',
          ''You ship more than you talk. Keep building.'')
      | CREATOR \<Rightarrow> ([CHR 0xF0, CHR 0x9F, CHR 0x8E, CHR 0xA8], ''Creator Aura'',
          ''Taste + output. You make the timeline prettier.'')
      | INFLUENCER \<Rightarrow> ([CHR 0xF0, CHR 0x9F, CHR 0x93, CHR 0xA3], ''Influencer Aura'',
          ''You move attention. The feed follows your signal.'')
      | THINKER \<Rightarrow> ([CHR 0xF0, CHR 0x9F, CHR 0xA7, CHR 0xA0], ''Thinker Aura'',
          ''Depth merchant. Your replies add real brainpower.'')
      | DEGEN \<Rightarrow> ([CHR 0xF0, CHR 0x9F, CHR 0x8E, CHR 0xB0], ''Degen Aura'',
          ''Onchain instincts. You're early, often, and unbothered.'')
      | LURKER \<Rightarrow> ([CHR 0xF0, CHR 0x9F, CHR 0x91, CHR 0x80], ''Lurker Aura'',
          ''Silent watcher. Your aura is mysterious (and powerful).''))"

text \<open>
  The same table with the one change the source forces: the DEGEN description with the
  apostrophe the source file has, \<open>U+2019\<close>, the bytes \<open>E2 80 99\<close>.
\<close>

definition source_display :: "AuraType \<Rightarrow> string \<times> string \<times> string" where
  "source_display t =
     (if t = DEGEN
      then (fst (spec_display DEGEN), fst (snd (spec_display DEGEN)),
            ''Onchain instincts. You'' @ [CHR 0xE2, CHR 0x80, CHR 0x99]
              @ ''re early, often, and unbothered.'')
      else spec_display t)"

text \<open>The five dimensions of a breakdown, by name.\<close>

definition dimensions :: "(AuraBreakdown \<Rightarrow> real) list" where
  "dimensions = [activity, impact, social, style, onchain]"

text \<open>
  The override of \<open>pickAuraType\<close> written on the inputs and a breakdown: the source's
  \<open>isLurker\<close> with its local names unfolded.
\<close>

definition override :: "AuraInputs \<Rightarrow> AuraBreakdown \<Rightarrow> bool" where
  "override i b \<longleftrightarrow>
     max 0 (casts i) + max 0 (replies i) \<le> 2
     \<or> (activity b \<le> 12 \<and> impact b \<le> 12 \<and> social b \<le> 12)"

text \<open>Inputs of the specification's scenarios, and of the examples below.\<close>

definition no_footprint :: AuraInputs where
  "no_footprint = \<lparr>casts = 0, replies = 0, reactionsReceived = 0, followers = 0,
     longCastRatio = None, mediaCastRatio = None, baseTxCount = None\<rparr>"

definition one_cast_whale :: AuraInputs where
  "one_cast_whale = \<lparr>casts = 1, replies = 0, reactionsReceived = 1000, followers = 1000000,
     longCastRatio = None, mediaCastRatio = None, baseTxCount = None\<rparr>"

definition onchain_heavy :: AuraInputs where
  "onchain_heavy = \<lparr>casts = 10, replies = 2, reactionsReceived = 5, followers = 20,
     longCastRatio = None, mediaCastRatio = None, baseTxCount = Some 60\<rparr>"

definition power_user :: AuraInputs where
  "power_user = \<lparr>casts = 200, replies = 50, reactionsReceived = 500, followers = 5000,
     longCastRatio = Some 1, mediaCastRatio = Some 1, baseTxCount = Some 60\<rparr>"

definition builder_creator_tie :: AuraInputs where
  "builder_creator_tie = \<lparr>casts = 17, replies = 0, reactionsReceived = 62, followers = 0,
     longCastRatio = None, mediaCastRatio = Some 1, baseTxCount = None\<rparr>"

definition negative_casts :: AuraInputs where
  "negative_casts = \<lparr>casts = - 1000, replies = 100, reactionsReceived = 0, followers = 0,
     longCastRatio = None, mediaCastRatio = None, baseTxCount = None\<rparr>"

definition near_tie :: AuraInputs where
  "near_tie = \<lparr>casts = 0, replies = 10, reactionsReceived = 0, followers = 0,
     longCastRatio = None, mediaCastRatio = None, baseTxCount = Some 5\<rparr>"

definition half_point :: AuraInputs where
  "half_point = \<lparr>casts = 9, replies = 0, reactionsReceived = 4, followers = 0,
     longCastRatio = None, mediaCastRatio = None, baseTxCount = None\<rparr>"

definition half_point_lurker :: AuraInputs where
  "half_point_lurker = \<lparr>casts = 1, replies = 0, reactionsReceived = 39, followers = 0,
     longCastRatio = None, mediaCastRatio = None, baseTxCount = None\<rparr>"

definition busy_account :: AuraInputs where
  "busy_account = \<lparr>casts = 200, replies = 50, reactionsReceived = 500, followers = 5000,
     longCastRatio = None, mediaCastRatio = None, baseTxCount = Some 0\<rparr>"

definition out_of_range :: AuraInputs where
  "out_of_range = \<lparr>casts = 3, replies = 4, reactionsReceived = - 5, followers = - 1,
     longCastRatio = Some 7, mediaCastRatio = Some (- 2), baseTxCount = Some (- 9)\<rparr>"

definition quiet_breakdown :: AuraBreakdown where
  "quiet_breakdown = \<lparr>activity = 12, impact = 5, social = 12, style = 80, onchain = 100\<rparr>"

section \<open>Rounding and clamping\<close>

lemma Math_round_Ints: "Math_round x \<in> \<int>"
  by (simp add: Math_round_def)

lemma Math_round_mono: "x \<le> y \<Longrightarrow> Math_round x \<le> Math_round y"
  by (simp add: Math_round_def floor_mono)

lemma Math_round_of_int: "Math_round (of_int k) = of_int k"
proof -
  have "\<lfloor>real_of_int k + 1 / 2\<rfloor> = k" by linarith
  then show ?thesis by (simp add: Math_round_def)
qed

lemma Math_round_ge: "of_int k \<le> x \<Longrightarrow> of_int k \<le> Math_round x"
  using Math_round_mono [of "of_int k" x] by (simp add: Math_round_of_int)

lemma Math_round_le: "x \<le> of_int k \<Longrightarrow> Math_round x \<le> of_int k"
  using Math_round_mono [of x "of_int k"] by (simp add: Math_round_of_int)

lemma clamp_bounds: "mn \<le> mx \<Longrightarrow> mn \<le> clamp n mn mx \<and> clamp n mn mx \<le> mx"
  by (simp add: clamp_def)

lemma clamp_mono: "x \<le> y \<Longrightarrow> clamp x mn mx \<le> clamp y mn mx"
  by (simp add: clamp_def min_def max_def)

section \<open>Rounding to doubles\<close>

lemma roundTiesToEven_ge: "of_int n \<le> y \<Longrightarrow> n \<le> roundTiesToEven y"
proof -
  assume "of_int n \<le> y"
  then have "n \<le> \<lfloor>y\<rfloor>" by (simp add: le_floor_iff)
  then show ?thesis by (simp add: roundTiesToEven_def Let_def)
qed

lemma roundTiesToEven_eqI:
  assumes "\<bar>y - of_int n\<bar> < 1 / 2"
  shows "roundTiesToEven y = n"
proof (cases "of_int n \<le> y")
  case True
  then have "\<lfloor>y\<rfloor> = n" using assms by linarith
  then show ?thesis using assms True by (simp add: roundTiesToEven_def Let_def)
next
  case False
  then have f: "\<lfloor>y\<rfloor> = n - 1" using assms by linarith
  have "1 / 2 < y - of_int (n - 1)" using assms False by simp
  then show ?thesis using f by (simp add: roundTiesToEven_def Let_def)
qed

lemma floor_log2_eqI:
  fixes a b :: nat
  assumes "2 ^ a \<le> x * 2 ^ b" and "x * 2 ^ b < 2 ^ (a + 1)"
  shows "\<lfloor>log 2 x\<rfloor> = int a - int b"
proof -
  have x: "0 < x"
  proof (rule ccontr)
    assume "\<not> 0 < x"
    then have "x * 2 ^ b \<le> 0" by (simp add: mult_le_0_iff)
    moreover have "(0::real) < 2 ^ a" by simp
    ultimately show False using assms(1) by linarith
  qed
  have p: "(2::real) powr (of_int (int a - int b)) = 2 ^ a / 2 ^ b"
    by (simp add: powr_diff powr_realpow)
  have "2 powr (of_int (int a - int b)) \<le> x"
    unfolding p using assms(1) by (simp add: pos_divide_le_eq)
  moreover have "x < 2 powr (of_int (int a - int b + 1))"
  proof -
    have "(2::real) powr (of_int (int a - int b + 1)) = 2 ^ (a + 1) / 2 ^ b"
      by (simp add: powr_diff powr_add powr_realpow)
    then show ?thesis using assms(2) by (simp add: pos_less_divide_eq)
  qed
  ultimately have "of_int (int a - int b) \<le> log 2 x" "log 2 x < of_int (int a - int b + 1)"
    using x by (simp_all add: le_log_iff log_less_iff del: of_int_diff of_int_add)
  then show ?thesis by linarith
qed

lemma binary64_eqI:
  fixes a b :: nat
  assumes lo: "2 ^ a \<le> \<bar>x\<bar> * 2 ^ b" and hi: "\<bar>x\<bar> * 2 ^ b < 2 ^ (a + 1)"
    and range: "b \<le> 1022"
    and near: "\<bar>x * 2 ^ (b + 52) - of_int n * 2 ^ a\<bar> * 2 < 2 ^ a"
  shows "binary64 x = of_int n * 2 ^ a / 2 ^ (b + 52)"
proof -
  have x: "x \<noteq> 0"
  proof
    assume "x = 0"
    then have "(2::real) ^ a \<le> 0" using lo by simp
    moreover have "(0::real) < 2 ^ a" by simp
    ultimately show False by linarith
  qed
  have e: "\<lfloor>log 2 \<bar>x\<bar>\<rfloor> = int a - int b" using lo hi by (rule floor_log2_eqI)
  have m: "max (- 1022) (int a - int b) = int a - int b" using range by simp
  define q :: real where "q = 2 ^ a / 2 ^ (b + 52)"
  have q: "2 powr (of_int (int a - int b) - 52) = q"
    by (simp add: q_def powr_diff powr_realpow power_add)
  have qpos: "0 < q" by (simp add: q_def)
  have "x / q - of_int n = (x * 2 ^ (b + 52) - of_int n * 2 ^ a) / 2 ^ a"
    by (simp add: q_def field_simps)
  then have "\<bar>x / q - of_int n\<bar> = \<bar>x * 2 ^ (b + 52) - of_int n * 2 ^ a\<bar> / 2 ^ a"
    by (simp add: abs_divide)
  also have "\<dots> < 1 / 2" using near by (simp add: pos_divide_less_eq)
  finally have "roundTiesToEven (x / q) = n" by (rule roundTiesToEven_eqI)
  then have "binary64 x = q * of_int n"
    using x by (simp only: binary64_def Let_def e m q if_False)
  then show ?thesis by (simp add: q_def)
qed

lemma binary64_nonneg: "0 \<le> x \<Longrightarrow> 0 \<le> binary64 x"
proof -
  assume x: "0 \<le> x"
  have "0 \<le> roundTiesToEven (x / q)" if "0 < q" for q
    using x that by (intro roundTiesToEven_ge) simp
  then show ?thesis
    by (simp add: binary64_def Let_def)
qed

lemma binary64_ge_int:
  assumes ky: "of_int k \<le> y" and k1: "1 \<le> k" and k53: "k < 2 ^ 53"
  shows "of_int k \<le> binary64 y"
proof -
  have y: "1 \<le> y" using ky k1 by linarith
  define e where "e = \<lfloor>log 2 y\<rfloor>"
  have "0 \<le> log 2 y" using y by simp
  then have e0: "0 \<le> e" by (simp add: e_def)
  have "of_int e \<le> log 2 y" by (simp add: e_def)
  then have le: "2 powr of_int e \<le> y" using y by (simp add: le_log_iff)
  define q :: real where "q = 2 powr (of_int e - 52)"
  have qpos: "0 < q" by (simp add: q_def)
  have m: "max (- 1022) e = e" using e0 by simp
  have "y \<noteq> 0" "\<bar>y\<bar> = y" using y by simp_all
  then have b: "binary64 y = q * of_int (roundTiesToEven (y / q))"
    by (simp only: binary64_def Let_def e_def [symmetric] m q_def if_False)
  show ?thesis
  proof (cases "e \<le> 52")
    case True
    define m where "m = nat (52 - e)"
    have "q = 2 powr (- of_int (int m))" using True by (simp add: q_def m_def)
    then have q': "q = 1 / 2 ^ m" by (simp add: powr_minus powr_realpow divide_inverse)
    then have "of_int (k * 2 ^ m) = of_int k / q" by simp
    also have "\<dots> \<le> y / q" using ky qpos by (simp add: divide_right_mono)
    finally have "k * 2 ^ m \<le> roundTiesToEven (y / q)" by (rule roundTiesToEven_ge)
    then have "real_of_int (k * 2 ^ m) \<le> of_int (roundTiesToEven (y / q))"
      by (simp only: of_int_le_iff)
    then have "q * real_of_int (k * 2 ^ m) \<le> q * of_int (roundTiesToEven (y / q))"
      using qpos by (simp only: mult_le_cancel_left_pos)
    moreover have "q * real_of_int (k * 2 ^ m) = of_int k" by (simp add: q')
    ultimately show ?thesis by (simp only: b)
  next
    case False
    then have e53: "53 \<le> e" by simp
    have "2 powr of_int e / q = 2 powr 52" by (simp add: q_def powr_diff)
    also have "\<dots> = 2 ^ 52" by (simp add: powr_realpow [symmetric] del: powr_numeral)
    finally have d: "2 powr of_int e / q = of_int (2 ^ 52)" by simp
    have "of_int (2 ^ 52) \<le> y / q"
      unfolding d [symmetric] using le qpos by (simp add: divide_right_mono)
    then have "2 ^ 52 \<le> roundTiesToEven (y / q)" by (rule roundTiesToEven_ge)
    then have "real_of_int (2 ^ 52) \<le> of_int (roundTiesToEven (y / q))"
      by (simp only: of_int_le_iff)
    then have "q * real_of_int (2 ^ 52) \<le> q * of_int (roundTiesToEven (y / q))"
      using qpos by (simp only: mult_le_cancel_left_pos)
    moreover have "q * real_of_int (2 ^ 52) = 2 powr of_int e"
      using d qpos by (simp add: field_simps)
    moreover have "(2::real) ^ 53 \<le> 2 powr of_int e"
    proof -
      have "(2::real) powr of_int 53 \<le> 2 powr of_int e"
        using e53 by (intro powr_mono) simp_all
      then show ?thesis by simp
    qed
    moreover have "real_of_int k < 2 ^ 53" using k53 by (metis of_int_less_iff of_int_numeral of_int_power)
    ultimately have "real_of_int k \<le> q * of_int (roundTiesToEven (y / q))" by linarith
    then show ?thesis by (simp only: b)
  qed
qed

lemma roundTiesToEven_tieI:
  assumes "\<bar>y - of_int n\<bar> = 1 / 2" and "even n"
  shows "roundTiesToEven y = n"
proof (cases "of_int n \<le> y")
  case True
  then have y: "y - of_int n = 1 / 2" using assms(1) by simp
  then have "\<lfloor>y\<rfloor> = n" by linarith
  then show ?thesis using y assms(2) by (simp add: roundTiesToEven_def Let_def)
next
  case False
  then have y: "y - of_int (n - 1) = 1 / 2" using assms(1) by simp
  then have f: "\<lfloor>y\<rfloor> = n - 1" by linarith
  have "odd (n - 1)" using assms(2) by simp
  then show ?thesis using y f by (simp add: roundTiesToEven_def Let_def)
qed

lemma binary64_tieI:
  fixes a b :: nat
  assumes lo: "2 ^ a \<le> \<bar>x\<bar> * 2 ^ b" and hi: "\<bar>x\<bar> * 2 ^ b < 2 ^ (a + 1)"
    and range: "b \<le> 1022"
    and tie: "\<bar>x * 2 ^ (b + 52) - of_int n * 2 ^ a\<bar> * 2 = 2 ^ a" and even: "even n"
  shows "binary64 x = of_int n * 2 ^ a / 2 ^ (b + 52)"
proof -
  have x: "x \<noteq> 0"
  proof
    assume "x = 0"
    then have "(2::real) ^ a \<le> 0" using lo by simp
    moreover have "(0::real) < 2 ^ a" by simp
    ultimately show False by linarith
  qed
  have e: "\<lfloor>log 2 \<bar>x\<bar>\<rfloor> = int a - int b" using lo hi by (rule floor_log2_eqI)
  have m: "max (- 1022) (int a - int b) = int a - int b" using range by simp
  define q :: real where "q = 2 ^ a / 2 ^ (b + 52)"
  have q: "2 powr (of_int (int a - int b) - 52) = q"
    by (simp add: q_def powr_diff powr_realpow power_add)
  have "x / q - of_int n = (x * 2 ^ (b + 52) - of_int n * 2 ^ a) / 2 ^ a"
    by (simp add: q_def field_simps)
  then have "\<bar>x / q - of_int n\<bar> = \<bar>x * 2 ^ (b + 52) - of_int n * 2 ^ a\<bar> / 2 ^ a"
    by (simp add: abs_divide)
  also have "\<dots> = 1 / 2" using tie by (simp add: field_simps)
  finally have "roundTiesToEven (x / q) = n" using even by (rule roundTiesToEven_tieI)
  then have "binary64 x = q * of_int n"
    using x by (simp only: binary64_def Let_def e m q if_False)
  then show ?thesis by (simp add: q_def)
qed

lemma dmul_zero: "dmul 0 y = 0"
  by (simp add: dmul_def binary64_def)

lemma dadd_zero_zero: "dadd 0 0 = 0"
  by (simp add: dadd_def binary64_def)

lemma dmul_nonneg: "0 \<le> x \<Longrightarrow> 0 \<le> y \<Longrightarrow> 0 \<le> dmul x y"
  by (simp add: dmul_def binary64_nonneg)

lemma dadd_nonneg: "0 \<le> x \<Longrightarrow> 0 \<le> y \<Longrightarrow> 0 \<le> dadd x y"
  by (simp add: dadd_def binary64_nonneg)

subsection \<open>The literals\<close>

lemma lit_0_05_val: "lit_0_05 = 3602879701896397 / 72057594037927936"
  unfolding lit_0_05_def
  using binary64_eqI [where x = "5 / 100" and a = 0 and b = 5 and n = 7205759403792794]
  by simp

lemma lit_0_1_val: "lit_0_1 = 3602879701896397 / 36028797018963968"
  unfolding lit_0_1_def
  using binary64_eqI [where x = "1 / 10" and a = 0 and b = 4 and n = 7205759403792794]
  by simp

lemma lit_0_15_val: "lit_0_15 = 5404319552844595 / 36028797018963968"
  unfolding lit_0_15_def
  using binary64_eqI [where x = "15 / 100" and a = 0 and b = 3 and n = 5404319552844595]
  by simp

lemma lit_0_2_val: "lit_0_2 = 3602879701896397 / 18014398509481984"
  unfolding lit_0_2_def
  using binary64_eqI [where x = "2 / 10" and a = 0 and b = 3 and n = 7205759403792794]
  by simp

lemma lit_0_3_val: "lit_0_3 = 5404319552844595 / 18014398509481984"
  unfolding lit_0_3_def
  using binary64_eqI [where x = "3 / 10" and a = 0 and b = 2 and n = 5404319552844595]
  by simp

lemma lit_0_35_val: "lit_0_35 = 3152519739159347 / 9007199254740992"
  unfolding lit_0_35_def
  using binary64_eqI [where x = "35 / 100" and a = 0 and b = 2 and n = 6305039478318694]
  by simp

lemma lit_0_45_val: "lit_0_45 = 8106479329266893 / 18014398509481984"
  unfolding lit_0_45_def
  using binary64_eqI [where x = "45 / 100" and a = 0 and b = 2 and n = 8106479329266893]
  by simp

lemma lit_0_55_val: "lit_0_55 = 2476979795053773 / 4503599627370496"
  unfolding lit_0_55_def
  using binary64_eqI [where x = "55 / 100" and a = 0 and b = 1 and n = 4953959590107546]
  by simp

lemma lit_0_6_val: "lit_0_6 = 5404319552844595 / 9007199254740992"
  unfolding lit_0_6_def
  using binary64_eqI [where x = "6 / 10" and a = 0 and b = 1 and n = 5404319552844595]
  by simp

lemma lit_0_65_val: "lit_0_65 = 5854679515581645 / 9007199254740992"
  unfolding lit_0_65_def
  using binary64_eqI [where x = "65 / 100" and a = 0 and b = 1 and n = 5854679515581645]
  by simp

lemma lit_0_7_val: "lit_0_7 = 3152519739159347 / 4503599627370496"
  unfolding lit_0_7_def
  using binary64_eqI [where x = "7 / 10" and a = 0 and b = 1 and n = 6305039478318694]
  by simp

lemma lit_0_75_val: "lit_0_75 = 3 / 4"
  unfolding lit_0_75_def
  using binary64_eqI [where x = "75 / 100" and a = 0 and b = 1 and n = 6755399441055744]
  by simp

lemma lit_nonneg:
  "0 \<le> lit_0_05" "0 \<le> lit_0_1" "0 \<le> lit_0_15" "0 \<le> lit_0_2" "0 \<le> lit_0_3" "0 \<le> lit_0_35"
  "0 \<le> lit_0_45" "0 \<le> lit_0_55" "0 \<le> lit_0_6" "0 \<le> lit_0_65" "0 \<le> lit_0_7" "0 \<le> lit_0_75"
  by (simp_all add: lit_0_05_val lit_0_1_val lit_0_15_val lit_0_2_val lit_0_3_val lit_0_35_val
      lit_0_45_val lit_0_55_val lit_0_6_val lit_0_65_val lit_0_7_val lit_0_75_val)

lemma zero_not_above_lit_0_35: "\<not> lit_0_35 < 0"
  using lit_nonneg(6) by simp

subsection \<open>The products and sums of the scenarios\<close>

lemma double_step_1: "dmul 54 lit_0_6 = 4559894622712627 / 140737488355328"
  unfolding dmul_def lit_0_6_val
  using binary64_eqI [where x = "54 * (5404319552844595 / 9007199254740992)" and a = 5 and b = 0 and n = 4559894622712627]
  by simp

lemma double_step_2: "dmul 32 lit_0_2 = 3602879701896397 / 562949953421312"
  unfolding dmul_def lit_0_2_val
  using binary64_eqI [where x = "32 * (3602879701896397 / 18014398509481984)" and a = 2 and b = 0 and n = 7205759403792794]
  by simp

lemma double_step_3: "dadd (4559894622712627 / 140737488355328) (3602879701896397 / 562949953421312) = 2730307274093363 / 70368744177664"
  unfolding dadd_def
  using binary64_eqI [where x = "(4559894622712627 / 140737488355328) + (3602879701896397 / 562949953421312)" and a = 5 and b = 0 and n = 5460614548186726]
  by simp

lemma double_step_4: "dadd (2730307274093363 / 70368744177664) 0 = 2730307274093363 / 70368744177664"
  unfolding dadd_def
  using binary64_eqI [where x = "(2730307274093363 / 70368744177664) + 0" and a = 5 and b = 0 and n = 5460614548186726]
  by simp

lemma double_step_5: "dmul 32 lit_0_15 = 5404319552844595 / 1125899906842624"
  unfolding dmul_def lit_0_15_val
  using binary64_eqI [where x = "32 * (5404319552844595 / 36028797018963968)" and a = 2 and b = 0 and n = 5404319552844595]
  by simp

lemma double_step_6: "dadd 0 (5404319552844595 / 1125899906842624) = 5404319552844595 / 1125899906842624"
  unfolding dadd_def
  using binary64_eqI [where x = "0 + (5404319552844595 / 1125899906842624)" and a = 2 and b = 0 and n = 5404319552844595]
  by simp

lemma double_step_7: "dmul 54 lit_0_1 = 3039929748475085 / 562949953421312"
  unfolding dmul_def lit_0_1_val
  using binary64_eqI [where x = "54 * (3602879701896397 / 36028797018963968)" and a = 2 and b = 0 and n = 6079859496950170]
  by simp

lemma double_step_8: "dadd (5404319552844595 / 1125899906842624) (3039929748475085 / 562949953421312) = 2871044762448691 / 281474976710656"
  unfolding dadd_def
  using binary64_tieI [where x = "(5404319552844595 / 1125899906842624) + (3039929748475085 / 562949953421312)" and a = 3 and b = 0 and n = 5742089524897382]
  by simp

lemma double_step_9: "dmul 40 lit_0_45 = 18"
  unfolding dmul_def lit_0_45_val
  using binary64_eqI [where x = "40 * (8106479329266893 / 18014398509481984)" and a = 4 and b = 0 and n = 5066549580791808]
  by simp

lemma double_step_10: "dmul 32 lit_0_45 = 8106479329266893 / 562949953421312"
  unfolding dmul_def lit_0_45_val
  using binary64_eqI [where x = "32 * (8106479329266893 / 18014398509481984)" and a = 3 and b = 0 and n = 8106479329266893]
  by simp

lemma double_step_11: "dadd 18 (8106479329266893 / 562949953421312) = 4559894622712627 / 140737488355328"
  unfolding dadd_def
  using binary64_eqI [where x = "18 + (8106479329266893 / 562949953421312)" and a = 5 and b = 0 and n = 4559894622712627]
  by simp

lemma double_step_12: "dadd (4559894622712627 / 140737488355328) (3039929748475085 / 562949953421312) = 2659938529915699 / 70368744177664"
  unfolding dadd_def
  using binary64_eqI [where x = "(4559894622712627 / 140737488355328) + (3039929748475085 / 562949953421312)" and a = 5 and b = 0 and n = 5319877059831398]
  by simp

lemma double_step_13: "dmul 54 lit_0_35 = 2659938529915699 / 140737488355328"
  unfolding dmul_def lit_0_35_val
  using binary64_eqI [where x = "54 * (3152519739159347 / 9007199254740992)" and a = 4 and b = 0 and n = 5319877059831398]
  by simp

lemma double_step_14: "dadd 0 (2659938529915699 / 140737488355328) = 2659938529915699 / 140737488355328"
  unfolding dadd_def
  using binary64_eqI [where x = "0 + (2659938529915699 / 140737488355328)" and a = 4 and b = 0 and n = 5319877059831398]
  by simp

lemma double_step_15: "dadd (2659938529915699 / 140737488355328) 0 = 2659938529915699 / 140737488355328"
  unfolding dadd_def
  using binary64_eqI [where x = "(2659938529915699 / 140737488355328) + 0" and a = 4 and b = 0 and n = 5319877059831398]
  by simp

lemma double_step_16: "dmul 100 lit_0_65 = 65"
  unfolding dmul_def lit_0_65_val
  using binary64_eqI [where x = "100 * (5854679515581645 / 9007199254740992)" and a = 6 and b = 0 and n = 4573968371548160]
  by simp

lemma double_step_17: "dmul 54 lit_0_2 = 3039929748475085 / 281474976710656"
  unfolding dmul_def lit_0_2_val
  using binary64_eqI [where x = "54 * (3602879701896397 / 18014398509481984)" and a = 3 and b = 0 and n = 6079859496950170]
  by simp

lemma double_step_18: "dadd 65 (3039929748475085 / 281474976710656) = 5333950808666931 / 70368744177664"
  unfolding dadd_def
  using binary64_eqI [where x = "65 + (3039929748475085 / 281474976710656)" and a = 6 and b = 0 and n = 5333950808666931]
  by simp

lemma double_step_19: "dadd (5333950808666931 / 70368744177664) (5404319552844595 / 1125899906842624) = 2835860390359859 / 35184372088832"
  unfolding dadd_def
  using binary64_eqI [where x = "(5333950808666931 / 70368744177664) + (5404319552844595 / 1125899906842624)" and a = 6 and b = 0 and n = 5671720780719718]
  by simp

lemma double_step_20: "dmul 60 lit_0_6 = 36"
  unfolding dmul_def lit_0_6_val
  using binary64_eqI [where x = "60 * (5404319552844595 / 9007199254740992)" and a = 5 and b = 0 and n = 5066549580791808]
  by simp

lemma double_step_21: "dmul 75 lit_0_2 = 15"
  unfolding dmul_def lit_0_2_val
  using binary64_eqI [where x = "75 * (3602879701896397 / 18014398509481984)" and a = 3 and b = 0 and n = 8444249301319680]
  by simp

lemma double_step_22: "dadd 36 15 = 51"
  unfolding dadd_def
  using binary64_eqI [where x = "36 + 15" and a = 5 and b = 0 and n = 7177611906121728]
  by simp

lemma double_step_23: "dadd 51 0 = 51"
  unfolding dadd_def
  using binary64_eqI [where x = "51 + 0" and a = 5 and b = 0 and n = 7177611906121728]
  by simp

lemma double_step_24: "dmul 45 lit_0_75 = 135 / 4"
  unfolding dmul_def lit_0_75_val
  using binary64_eqI [where x = "45 * (3 / 4)" and a = 5 and b = 0 and n = 4749890231992320]
  by simp

lemma double_step_25: "dmul 75 lit_0_15 = 45 / 4"
  unfolding dmul_def lit_0_15_val
  using binary64_eqI [where x = "75 * (5404319552844595 / 36028797018963968)" and a = 3 and b = 0 and n = 6333186975989760]
  by simp

lemma double_step_26: "dadd (135 / 4) (45 / 4) = 45"
  unfolding dadd_def
  using binary64_eqI [where x = "(135 / 4) + (45 / 4)" and a = 5 and b = 0 and n = 6333186975989760]
  by simp

lemma double_step_27: "dmul 60 lit_0_1 = 6"
  unfolding dmul_def lit_0_1_val
  using binary64_eqI [where x = "60 * (3602879701896397 / 36028797018963968)" and a = 2 and b = 0 and n = 6755399441055744]
  by simp

lemma double_step_28: "dadd 45 6 = 51"
  unfolding dadd_def
  using binary64_eqI [where x = "45 + 6" and a = 5 and b = 0 and n = 7177611906121728]
  by simp

lemma double_step_29: "dmul 75 lit_0_45 = 135 / 4"
  unfolding dmul_def lit_0_45_val
  using binary64_eqI [where x = "75 * (8106479329266893 / 18014398509481984)" and a = 5 and b = 0 and n = 4749890231992320]
  by simp

lemma double_step_30: "dadd 0 (135 / 4) = 135 / 4"
  unfolding dadd_def
  using binary64_eqI [where x = "0 + (135 / 4)" and a = 5 and b = 0 and n = 4749890231992320]
  by simp

lemma double_step_31: "dadd (135 / 4) 6 = 159 / 4"
  unfolding dadd_def
  using binary64_eqI [where x = "(135 / 4) + 6" and a = 5 and b = 0 and n = 5594315162124288]
  by simp

lemma double_step_32: "dmul 45 lit_0_55 = 6966505673588737 / 281474976710656"
  unfolding dmul_def lit_0_55_val
  using binary64_eqI [where x = "45 * (2476979795053773 / 4503599627370496)" and a = 4 and b = 0 and n = 6966505673588737]
  by simp

lemma double_step_33: "dmul 60 lit_0_35 = 21"
  unfolding dmul_def lit_0_35_val
  using binary64_eqI [where x = "60 * (3152519739159347 / 9007199254740992)" and a = 4 and b = 0 and n = 5910974510923776]
  by simp

lemma double_step_34: "dadd (6966505673588737 / 281474976710656) 21 = 183 / 4"
  unfolding dadd_def
  using binary64_tieI [where x = "(6966505673588737 / 281474976710656) + 21" and a = 5 and b = 0 and n = 6438740092256256]
  by simp

lemma double_step_35: "dadd (183 / 4) 0 = 183 / 4"
  unfolding dadd_def
  using binary64_eqI [where x = "(183 / 4) + 0" and a = 5 and b = 0 and n = 6438740092256256]
  by simp

lemma double_step_36: "dmul 60 lit_0_2 = 12"
  unfolding dmul_def lit_0_2_val
  using binary64_eqI [where x = "60 * (3602879701896397 / 18014398509481984)" and a = 3 and b = 0 and n = 6755399441055744]
  by simp

lemma double_step_37: "dadd 0 12 = 12"
  unfolding dadd_def
  using binary64_eqI [where x = "0 + 12" and a = 3 and b = 0 and n = 6755399441055744]
  by simp

lemma double_step_38: "dadd 12 (45 / 4) = 93 / 4"
  unfolding dadd_def
  using binary64_eqI [where x = "12 + (45 / 4)" and a = 4 and b = 0 and n = 6544293208522752]
  by simp

lemma double_step_39: "dmul 53 lit_0_6 = 2237726064849715 / 70368744177664"
  unfolding dmul_def lit_0_6_val
  using binary64_eqI [where x = "53 * (5404319552844595 / 9007199254740992)" and a = 4 and b = 0 and n = 8950904259398860]
  by simp

lemma double_step_40: "dadd (2237726064849715 / 70368744177664) 0 = 2237726064849715 / 70368744177664"
  unfolding dadd_def
  using binary64_eqI [where x = "(2237726064849715 / 70368744177664) + 0" and a = 4 and b = 0 and n = 8950904259398860]
  by simp

lemma double_step_41: "dadd (2237726064849715 / 70368744177664) 10 = 2941413506626355 / 70368744177664"
  unfolding dadd_def
  using binary64_eqI [where x = "(2237726064849715 / 70368744177664) + 10" and a = 5 and b = 0 and n = 5882827013252710]
  by simp

lemma double_step_42: "dmul 53 lit_0_1 = 1491817376566477 / 281474976710656"
  unfolding dmul_def lit_0_1_val
  using binary64_eqI [where x = "53 * (3602879701896397 / 36028797018963968)" and a = 2 and b = 0 and n = 5967269506265908]
  by simp

lemma double_step_43: "dadd 0 (1491817376566477 / 281474976710656) = 1491817376566477 / 281474976710656"
  unfolding dadd_def
  using binary64_eqI [where x = "0 + (1491817376566477 / 281474976710656)" and a = 2 and b = 0 and n = 5967269506265908]
  by simp

lemma double_step_44: "dmul 53 lit_0_35 = 1305340204495667 / 70368744177664"
  unfolding dmul_def lit_0_35_val
  using binary64_eqI [where x = "53 * (3152519739159347 / 9007199254740992)" and a = 4 and b = 0 and n = 5221360817982668]
  by simp

lemma double_step_45: "dadd 0 (1305340204495667 / 70368744177664) = 1305340204495667 / 70368744177664"
  unfolding dadd_def
  using binary64_eqI [where x = "0 + (1305340204495667 / 70368744177664)" and a = 4 and b = 0 and n = 5221360817982668]
  by simp

lemma double_step_46: "dadd (1305340204495667 / 70368744177664) 0 = 1305340204495667 / 70368744177664"
  unfolding dadd_def
  using binary64_eqI [where x = "(1305340204495667 / 70368744177664) + 0" and a = 4 and b = 0 and n = 5221360817982668]
  by simp

lemma double_step_47: "dmul 48 lit_0_65 = 2195504818343117 / 70368744177664"
  unfolding dmul_def lit_0_65_val
  using binary64_tieI [where x = "48 * (5854679515581645 / 9007199254740992)" and a = 4 and b = 0 and n = 8782019273372468]
  by simp

lemma double_step_48: "dmul 53 lit_0_2 = 1491817376566477 / 140737488355328"
  unfolding dmul_def lit_0_2_val
  using binary64_eqI [where x = "53 * (3602879701896397 / 18014398509481984)" and a = 3 and b = 0 and n = 5967269506265908]
  by simp

lemma double_step_49: "dadd (2195504818343117 / 70368744177664) (1491817376566477 / 140737488355328) = 5882827013252711 / 140737488355328"
  unfolding dadd_def
  using binary64_eqI [where x = "(2195504818343117 / 70368744177664) + (1491817376566477 / 140737488355328)" and a = 5 and b = 0 and n = 5882827013252711]
  by simp

lemma double_step_50: "dadd (5882827013252711 / 140737488355328) 0 = 5882827013252711 / 140737488355328"
  unfolding dadd_def
  using binary64_eqI [where x = "(5882827013252711 / 140737488355328) + 0" and a = 5 and b = 0 and n = 5882827013252711]
  by simp

lemma double_step_51: "dmul 100 lit_0_6 = 60"
  unfolding dmul_def lit_0_6_val
  using binary64_eqI [where x = "100 * (5404319552844595 / 9007199254740992)" and a = 5 and b = 0 and n = 8444249301319680]
  by simp

lemma double_step_52: "dmul 100 lit_0_2 = 20"
  unfolding dmul_def lit_0_2_val
  using binary64_eqI [where x = "100 * (3602879701896397 / 18014398509481984)" and a = 4 and b = 0 and n = 5629499534213120]
  by simp

lemma double_step_53: "dadd 60 20 = 80"
  unfolding dadd_def
  using binary64_eqI [where x = "60 + 20" and a = 6 and b = 0 and n = 5629499534213120]
  by simp

lemma double_step_54: "dadd 80 0 = 80"
  unfolding dadd_def
  using binary64_eqI [where x = "80 + 0" and a = 6 and b = 0 and n = 5629499534213120]
  by simp

lemma double_step_55: "dmul 100 lit_0_15 = 15"
  unfolding dmul_def lit_0_15_val
  using binary64_eqI [where x = "100 * (5404319552844595 / 36028797018963968)" and a = 3 and b = 0 and n = 8444249301319680]
  by simp

lemma double_step_56: "dadd 0 15 = 15"
  unfolding dadd_def
  using binary64_eqI [where x = "0 + 15" and a = 3 and b = 0 and n = 8444249301319680]
  by simp

lemma double_step_57: "dmul 100 lit_0_1 = 10"
  unfolding dmul_def lit_0_1_val
  using binary64_eqI [where x = "100 * (3602879701896397 / 36028797018963968)" and a = 3 and b = 0 and n = 5629499534213120]
  by simp

lemma double_step_58: "dadd 15 10 = 25"
  unfolding dadd_def
  using binary64_eqI [where x = "15 + 10" and a = 4 and b = 0 and n = 7036874417766400]
  by simp

lemma double_step_59: "dmul 100 lit_0_45 = 45"
  unfolding dmul_def lit_0_45_val
  using binary64_eqI [where x = "100 * (8106479329266893 / 18014398509481984)" and a = 5 and b = 0 and n = 6333186975989760]
  by simp

lemma double_step_60: "dadd 45 45 = 90"
  unfolding dadd_def
  using binary64_eqI [where x = "45 + 45" and a = 6 and b = 0 and n = 6333186975989760]
  by simp

lemma double_step_61: "dadd 90 10 = 100"
  unfolding dadd_def
  using binary64_eqI [where x = "90 + 10" and a = 6 and b = 0 and n = 7036874417766400]
  by simp

lemma double_step_62: "dmul 100 lit_0_35 = 35"
  unfolding dmul_def lit_0_35_val
  using binary64_eqI [where x = "100 * (3152519739159347 / 9007199254740992)" and a = 5 and b = 0 and n = 4925812092436480]
  by simp

lemma double_step_63: "dadd 0 35 = 35"
  unfolding dadd_def
  using binary64_eqI [where x = "0 + 35" and a = 5 and b = 0 and n = 4925812092436480]
  by simp

lemma double_step_64: "dadd 35 0 = 35"
  unfolding dadd_def
  using binary64_eqI [where x = "35 + 0" and a = 5 and b = 0 and n = 4925812092436480]
  by simp

lemma double_step_65: "dadd 0 20 = 20"
  unfolding dadd_def
  using binary64_eqI [where x = "0 + 20" and a = 4 and b = 0 and n = 5629499534213120]
  by simp

lemma double_step_66: "dadd 20 15 = 35"
  unfolding dadd_def
  using binary64_eqI [where x = "20 + 15" and a = 5 and b = 0 and n = 4925812092436480]
  by simp

lemma double_step_67: "dmul 100 lit_0_3 = 30"
  unfolding dmul_def lit_0_3_val
  using binary64_eqI [where x = "100 * (5404319552844595 / 18014398509481984)" and a = 4 and b = 0 and n = 8444249301319680]
  by simp

lemma double_step_68: "dadd 35 30 = 65"
  unfolding dadd_def
  using binary64_eqI [where x = "35 + 30" and a = 6 and b = 0 and n = 4573968371548160]
  by simp

lemma double_step_69: "dadd 65 20 = 85"
  unfolding dadd_def
  using binary64_eqI [where x = "65 + 20" and a = 6 and b = 0 and n = 5981343255101440]
  by simp

lemma double_step_70: "dadd 85 0 = 85"
  unfolding dadd_def
  using binary64_eqI [where x = "85 + 0" and a = 6 and b = 0 and n = 5981343255101440]
  by simp

lemma double_step_71: "dadd 0 10 = 10"
  unfolding dadd_def
  using binary64_eqI [where x = "0 + 10" and a = 3 and b = 0 and n = 5629499534213120]
  by simp

lemma double_step_72: "dmul 48 lit_0_35 = 1182194902184755 / 70368744177664"
  unfolding dmul_def lit_0_35_val
  using binary64_tieI [where x = "48 * (3152519739159347 / 9007199254740992)" and a = 4 and b = 0 and n = 4728779608739020]
  by simp

lemma double_step_73: "dmul 29 lit_0_3 = 2448832297382707 / 281474976710656"
  unfolding dmul_def lit_0_3_val
  using binary64_eqI [where x = "29 * (5404319552844595 / 18014398509481984)" and a = 3 and b = 0 and n = 4897664594765414]
  by simp

lemma double_step_74: "dadd (1182194902184755 / 70368744177664) (2448832297382707 / 281474976710656) = 7177611906121727 / 281474976710656"
  unfolding dadd_def
  using binary64_eqI [where x = "(1182194902184755 / 70368744177664) + (2448832297382707 / 281474976710656)" and a = 4 and b = 0 and n = 7177611906121727]
  by simp

lemma double_step_75: "dadd (7177611906121727 / 281474976710656) 0 = 7177611906121727 / 281474976710656"
  unfolding dadd_def
  using binary64_eqI [where x = "(7177611906121727 / 281474976710656) + 0" and a = 4 and b = 0 and n = 7177611906121727]
  by simp

lemma double_step_76: "dmul 14 lit_0_35 = 5516909543528857 / 1125899906842624"
  unfolding dmul_def lit_0_35_val
  using binary64_eqI [where x = "14 * (3152519739159347 / 9007199254740992)" and a = 2 and b = 0 and n = 5516909543528857]
  by simp

lemma double_step_77: "dmul 67 lit_0_3 = 5657647031884185 / 281474976710656"
  unfolding dmul_def lit_0_3_val
  using binary64_eqI [where x = "67 * (5404319552844595 / 18014398509481984)" and a = 4 and b = 0 and n = 5657647031884185]
  by simp

lemma double_step_78: "dadd (5516909543528857 / 1125899906842624) (5657647031884185 / 281474976710656) = 7036874417766399 / 281474976710656"
  unfolding dadd_def
  using binary64_eqI [where x = "(5516909543528857 / 1125899906842624) + (5657647031884185 / 281474976710656)" and a = 4 and b = 0 and n = 7036874417766399]
  by simp

lemma double_step_79: "dadd (7036874417766399 / 281474976710656) 0 = 7036874417766399 / 281474976710656"
  unfolding dadd_def
  using binary64_eqI [where x = "(7036874417766399 / 281474976710656) + 0" and a = 4 and b = 0 and n = 7036874417766399]
  by simp

lemma double_step_80: "dmul (7036874417766399 / 281474976710656) lit_0_7 = 4925812092436479 / 281474976710656"
  unfolding dmul_def lit_0_7_val
  using binary64_eqI [where x = "(7036874417766399 / 281474976710656) * (3152519739159347 / 4503599627370496)" and a = 4 and b = 0 and n = 4925812092436479]
  by simp

lemma double_step_81: "dadd (4925812092436479 / 281474976710656) 10 = 7740561859543039 / 281474976710656"
  unfolding dadd_def
  using binary64_eqI [where x = "(4925812092436479 / 281474976710656) + 10" and a = 4 and b = 0 and n = 7740561859543039]
  by simp

lemmas double_steps =
  double_step_1 double_step_2 double_step_3 double_step_4 double_step_5
  double_step_6 double_step_7 double_step_8 double_step_9 double_step_10
  double_step_11 double_step_12 double_step_13 double_step_14 double_step_15
  double_step_16 double_step_17 double_step_18 double_step_19 double_step_20
  double_step_21 double_step_22 double_step_23 double_step_24 double_step_25
  double_step_26 double_step_27 double_step_28 double_step_29 double_step_30
  double_step_31 double_step_32 double_step_33 double_step_34 double_step_35
  double_step_36 double_step_37 double_step_38 double_step_39 double_step_40
  double_step_41 double_step_42 double_step_43 double_step_44 double_step_45
  double_step_46 double_step_47 double_step_48 double_step_49 double_step_50
  double_step_51 double_step_52 double_step_53 double_step_54 double_step_55
  double_step_56 double_step_57 double_step_58 double_step_59 double_step_60
  double_step_61 double_step_62 double_step_63 double_step_64 double_step_65
  double_step_66 double_step_67 double_step_68 double_step_69 double_step_70
  double_step_71 double_step_72 double_step_73 double_step_74 double_step_75
  double_step_76 double_step_77 double_step_78 double_step_79 double_step_80
  double_step_81

section \<open>The logarithmic normalisation\<close>

lemma log10_denominator_pos: "0 < Math_log10 (1 + max 1 c)"
  by (simp add: Math_log10_def)

lemma logScore_Ints: "logScore v c \<in> \<int>"
  by (simp add: logScore_def Let_def Math_round_Ints)

lemma logScore_range: "0 \<le> logScore v c \<and> logScore v c \<le> 100"
proof -
  let ?x = "clamp (Math_log10 (1 + max 0 v) / Math_log10 (1 + max 1 c) * 100) 0 100"
  have "0 \<le> ?x \<and> ?x \<le> 100" by (rule clamp_bounds) simp
  then have "of_int 0 \<le> Math_round ?x \<and> Math_round ?x \<le> of_int 100"
    using Math_round_ge [of 0 ?x] Math_round_le [of ?x 100] by simp
  then show ?thesis by (simp add: logScore_def Let_def)
qed

lemma logScore_mono: "v \<le> w \<Longrightarrow> logScore v c \<le> logScore w c"
proof -
  assume vw: "v \<le> w"
  define d where "d = Math_log10 (1 + max 1 c)"
  have d: "0 < d" unfolding d_def by (rule log10_denominator_pos)
  have "Math_log10 (1 + max 0 v) \<le> Math_log10 (1 + max 0 w)"
    using vw by (simp add: Math_log10_def)
  then have "Math_log10 (1 + max 0 v) / d \<le> Math_log10 (1 + max 0 w) / d"
    using d by (rule_tac divide_right_mono) simp_all
  then have "Math_log10 (1 + max 0 v) / d * 100 \<le> Math_log10 (1 + max 0 w) / d * 100"
    by (rule_tac mult_right_mono) simp_all
  then have "Math_round (clamp (Math_log10 (1 + max 0 v) / d * 100) 0 100)
      \<le> Math_round (clamp (Math_log10 (1 + max 0 w) / d * 100) 0 100)"
    by (intro Math_round_mono clamp_mono)
  then show ?thesis
    unfolding logScore_def Let_def d_def .
qed

lemma logScore_saturates: "max 1 c \<le> v \<Longrightarrow> logScore v c = 100"
proof -
  assume cv: "max 1 c \<le> v"
  then have v: "max 0 v = v" by simp
  define r where "r = Math_log10 (1 + v) / Math_log10 (1 + max 1 c)"
  have "Math_log10 (1 + max 1 c) \<le> Math_log10 (1 + v)"
    using cv by (simp add: Math_log10_def)
  then have "1 \<le> r"
    unfolding r_def using log10_denominator_pos [of c] by (simp add: le_divide_eq)
  then have "clamp (r * 100) 0 100 = 100"
    by (simp add: clamp_def)
  then have "Math_round (clamp (r * 100) 0 100) = 100"
    using Math_round_of_int [of 100] by simp
  then show ?thesis
    unfolding logScore_def Let_def v r_def .
qed

lemma pow_le_imp_log_le:
  assumes "1 < y" and "0 < x" and "y ^ m \<le> x ^ n"
  shows "real m * Math_log10 y \<le> real n * Math_log10 x"
proof -
  have "log 10 (y ^ m) \<le> log 10 (x ^ n)"
    using assms by simp
  then show ?thesis
    using assms by (simp add: Math_log10_def log_nat_power)
qed

lemma pow_less_imp_log_less:
  assumes "1 < y" and "0 < x" and "x ^ n < y ^ m"
  shows "real n * Math_log10 x < real m * Math_log10 y"
proof -
  have "log 10 (x ^ n) < log 10 (y ^ m)"
    using assms by simp
  then show ?thesis
    using assms by (simp add: Math_log10_def log_nat_power)
qed

lemma Math_round_eqI: "real_of_int k - 1 / 2 \<le> x \<Longrightarrow> x < real_of_int k + 1 / 2 \<Longrightarrow> Math_round x = of_int k"
proof -
  assume "real_of_int k - 1 / 2 \<le> x" "x < real_of_int k + 1 / 2"
  then have "\<lfloor>x + 1 / 2\<rfloor> = k" by linarith
  then show ?thesis by (simp add: Math_round_def)
qed

lemma logScore_nonpos: "v \<le> 0 \<Longrightarrow> logScore v c = 0"
proof -
  assume "v \<le> 0"
  then have "max 0 v = 0" by simp
  then show ?thesis
    by (simp add: logScore_def Let_def Math_log10_def clamp_def Math_round_def)
qed

lemma logScore_eqI:
  assumes v: "0 \<le> v" and c: "1 \<le> c" and k: "k \<le> 100"
    and lo: "(1 + c) ^ m \<le> (1 + v) ^ n" "(2 * real k - 1) * real n \<le> 200 * real m" "0 < n"
    and hi: "(1 + v) ^ n' < (1 + c) ^ m'" "200 * real m' \<le> (2 * real k + 1) * real n'" "0 < n'"
  shows "logScore v c = real k"
proof -
  define d where "d = Math_log10 (1 + c)"
  define r where "r = Math_log10 (1 + v) / d"
  have d: "0 < d" using c by (simp add: d_def Math_log10_def)
  have n: "Math_log10 (1 + v) = r * d" using d by (simp add: r_def)
  have "real m * Math_log10 (1 + c) \<le> real n * Math_log10 (1 + v)"
    using v c lo(1) by (intro pow_le_imp_log_le) simp_all
  then have "real m * d \<le> (real n * r) * d" by (simp add: d_def n mult.assoc)
  then have "real m \<le> real n * r" using d by (simp only: mult_le_cancel_right_pos)
  then have "200 * real m \<le> real n * (200 * r)" by simp
  moreover have "real n * (2 * real k - 1) \<le> 200 * real m"
    using lo(2) by (simp only: mult.commute)
  ultimately have "real n * (2 * real k - 1) \<le> real n * (200 * r)"
    by (rule_tac order_trans)
  then have "2 * real k - 1 \<le> 200 * r"
    using lo(3) by (simp only: mult_le_cancel_left_pos of_nat_0_less_iff)
  then have lo': "real k - 1 / 2 \<le> r * 100" by simp
  have "real n' * Math_log10 (1 + v) < real m' * Math_log10 (1 + c)"
    using v c hi(1) by (intro pow_less_imp_log_less) simp_all
  then have "(real n' * r) * d < real m' * d" by (simp add: d_def n mult.assoc)
  then have "real n' * r < real m'" using d by (simp only: mult_less_cancel_right_pos)
  then have "real n' * (200 * r) < 200 * real m'" by simp
  moreover have "200 * real m' \<le> real n' * (2 * real k + 1)"
    using hi(2) by (simp only: mult.commute)
  ultimately have "real n' * (200 * r) < real n' * (2 * real k + 1)"
    by (rule_tac less_le_trans)
  then have "200 * r < 2 * real k + 1"
    using hi(3) by (simp only: mult_less_cancel_left_pos of_nat_0_less_iff)
  then have hi': "r * 100 < real k + 1 / 2" by simp
  have "real_of_int (int k) - 1 / 2 \<le> clamp (r * 100) 0 100"
    using lo' k by (simp add: clamp_def)
  moreover have "clamp (r * 100) 0 100 < real_of_int (int k) + 1 / 2"
    using hi' k by (simp add: clamp_def)
  ultimately have "Math_round (clamp (r * 100) 0 100) = of_int (int k)"
    by (rule Math_round_eqI)
  moreover have "max 0 v = v" "max 1 c = c" using v c by simp_all
  ultimately show ?thesis
    unfolding logScore_def Let_def r_def d_def by simp
qed

section \<open>The stable sort and its first element\<close>

lemma hd_insert_cmp:
  "hd (insert_cmp cmp x ys) = (if ys = [] \<or> cmp x (hd ys) \<le> 0 then x else hd ys)"
  by (cases ys) simp_all

lemma insert_cmp_not_Nil: "insert_cmp cmp x ys \<noteq> []"
  by (cases ys) simp_all

lemma Array_sort_Cons: "Array_sort cmp (x # xs) = insert_cmp cmp x (Array_sort cmp xs)"
  by (simp add: Array_sort_def)

lemma Array_sort_Nil_iff: "Array_sort cmp xs = [] \<longleftrightarrow> xs = []"
  by (cases xs) (simp_all add: Array_sort_def insert_cmp_not_Nil)

text \<open>
  Sorted by descending second component, the first element is the first one of the
  input whose second component is greatest.
\<close>

lemma hd_sort_first_max:
  "xs \<noteq> [] \<Longrightarrow>
   \<exists>i<length xs. hd (Array_sort (\<lambda>a b. snd b - snd a) xs) = xs ! i
     \<and> (\<forall>j<length xs. snd (xs ! j) \<le> snd (xs ! i))
     \<and> (\<forall>j<i. snd (xs ! j) < snd (xs ! i))"
proof (induction xs)
  case Nil
  then show ?case by simp
next
  case (Cons x xs)
  let ?cmp = "\<lambda>a b. snd b - snd (a :: 'a \<times> real)"
  show ?case
  proof (cases "xs = []")
    case True
    then show ?thesis by (simp add: Array_sort_def)
  next
    case False
    then obtain i where i: "i < length xs" "hd (Array_sort ?cmp xs) = xs ! i"
      "\<forall>j<length xs. snd (xs ! j) \<le> snd (xs ! i)" "\<forall>j<i. snd (xs ! j) < snd (xs ! i)"
      using Cons.IH by blast
    have ne: "Array_sort ?cmp xs \<noteq> []" using False by (simp add: Array_sort_Nil_iff)
    show ?thesis
    proof (cases "snd (xs ! i) \<le> snd x")
      case True
      then have "hd (Array_sort ?cmp (x # xs)) = (x # xs) ! 0"
        using i(2) ne by (simp add: Array_sort_Cons hd_insert_cmp)
      moreover have "\<forall>j<length (x # xs). snd ((x # xs) ! j) \<le> snd ((x # xs) ! 0)"
      proof (intro allI impI)
        fix j assume "j < length (x # xs)"
        then show "snd ((x # xs) ! j) \<le> snd ((x # xs) ! 0)"
          using i(3) True by (cases j) (auto intro: order_trans)
      qed
      ultimately show ?thesis by (intro exI [of _ 0]) simp
    next
      case False
      then have "hd (Array_sort ?cmp (x # xs)) = (x # xs) ! Suc i"
        using i(2) ne by (simp add: Array_sort_Cons hd_insert_cmp)
      moreover have "\<forall>j<length (x # xs). snd ((x # xs) ! j) \<le> snd ((x # xs) ! Suc i)"
      proof (intro allI impI)
        fix j assume "j < length (x # xs)"
        then show "snd ((x # xs) ! j) \<le> snd ((x # xs) ! Suc i)"
          using i(3) False by (cases j) auto
      qed
      moreover have "\<forall>j<Suc i. snd ((x # xs) ! j) < snd ((x # xs) ! Suc i)"
      proof (intro allI impI)
        fix j assume "j < Suc i"
        then show "snd ((x # xs) ! j) < snd ((x # xs) ! Suc i)"
          using i(4) False by (cases j) auto
      qed
      ultimately show ?thesis using i(1) by (intro exI [of _ "Suc i"]) simp
    qed
  qed
qed

section \<open>The fields of the result\<close>

lemma type_computeAura: "type (computeAura i) = pickAuraType i (computeBreakdown i)"
  by (simp add: computeAura_def Let_def split: prod.split)

lemma breakdown_computeAura: "breakdown (computeAura i) = computeBreakdown i"
  by (simp add: computeAura_def Let_def split: prod.split)

lemma display_computeAura:
  "(emoji (computeAura i), label (computeAura i), description (computeAura i))
     = meta (pickAuraType i (computeBreakdown i))"
  by (simp add: computeAura_def Let_def split: prod.split)

lemma score_computeAura:
  "score (computeAura i) =
     (if pickAuraType i (computeBreakdown i) = LURKER
      then Math_round (clamp (dadd (dmul (weighted (computeBreakdown i)) lit_0_7) 10) 0 60)
      else Math_round (clamp (weighted (computeBreakdown i)) 0 100))"
  by (simp add: computeAura_def Let_def split: prod.split)

lemma activity_computeBreakdown:
  "activity (computeBreakdown i) = logScore (casts i + replies i * (12 / 10)) 120"
  by (simp add: computeBreakdown_def Let_def)

lemma impact_computeBreakdown:
  "impact (computeBreakdown i) = logScore (reactionsReceived i) 250"
  by (simp add: computeBreakdown_def Let_def)

lemma social_computeBreakdown:
  "social (computeBreakdown i) = logScore (followers i) 2000"
  by (simp add: computeBreakdown_def Let_def)

lemma style_computeBreakdown:
  "style (computeBreakdown i) =
     Math_round (clamp (clamp01 (nullish (longCastRatio i) 0) * 55
                        + clamp01 (nullish (mediaCastRatio i) 0) * 45) 0 100)"
  by (simp add: computeBreakdown_def Let_def)

lemma onchain_computeBreakdown:
  "onchain (computeBreakdown i) = logScore (max 0 (nullish (baseTxCount i) 0)) 40"
  by (simp add: computeBreakdown_def Let_def)

lemma Math_round_clamp_range:
  assumes "lo \<le> hi"
  shows "real_of_int lo \<le> Math_round (clamp x (of_int lo) (of_int hi))
     \<and> Math_round (clamp x (of_int lo) (of_int hi)) \<le> real_of_int hi"
proof -
  have "real_of_int lo \<le> clamp x (of_int lo) (of_int hi)
      \<and> clamp x (of_int lo) (of_int hi) \<le> real_of_int hi"
    using assms by (intro clamp_bounds) simp
  then show ?thesis by (simp add: Math_round_ge Math_round_le)
qed

section \<open>Ranges of the result\<close>

lemma style_range:
  "style (computeBreakdown i) \<in> \<int> \<and> 0 \<le> style (computeBreakdown i)
     \<and> style (computeBreakdown i) \<le> 100"
  using Math_round_clamp_range [of 0 100]
  by (simp add: style_computeBreakdown Math_round_Ints)

lemma dimension_range:
  assumes "d \<in> set dimensions"
  shows "d (computeBreakdown i) \<in> \<int> \<and> 0 \<le> d (computeBreakdown i)
     \<and> d (computeBreakdown i) \<le> 100"
proof -
  consider "d = activity" | "d = impact" | "d = social" | "d = style" | "d = onchain"
    using assms by (auto simp add: dimensions_def)
  then show ?thesis
  proof cases
    case 1 then show ?thesis
      by (simp add: activity_computeBreakdown logScore_Ints logScore_range)
  next
    case 2 then show ?thesis
      by (simp add: impact_computeBreakdown logScore_Ints logScore_range)
  next
    case 3 then show ?thesis
      by (simp add: social_computeBreakdown logScore_Ints logScore_range)
  next
    case 4 then show ?thesis using style_range [of i] by simp
  next
    case 5 then show ?thesis
      by (simp add: onchain_computeBreakdown logScore_Ints logScore_range)
  qed
qed

lemma weighted_nonneg: "0 \<le> weighted (computeBreakdown i)"
proof -
  have "0 \<le> activity (computeBreakdown i)" "0 \<le> impact (computeBreakdown i)"
    "0 \<le> social (computeBreakdown i)" "0 \<le> style (computeBreakdown i)"
    "0 \<le> onchain (computeBreakdown i)"
    using dimension_range [of _ i] by (simp_all add: dimensions_def)
  then show ?thesis by (simp add: weighted_def dadd_nonneg dmul_nonneg lit_nonneg)
qed

lemma score_range:
  "score (computeAura i) \<in> \<int> \<and> 0 \<le> score (computeAura i) \<and> score (computeAura i) \<le> 100"
proof (cases "pickAuraType i (computeBreakdown i) = LURKER")
  case True
  define x where "x = dadd (dmul (weighted (computeBreakdown i)) lit_0_7) 10"
  have "0 \<le> Math_round (clamp x 0 60) \<and> Math_round (clamp x 0 60) \<le> 60"
    using Math_round_clamp_range [of 0 60 x] by simp
  then show ?thesis using True by (simp add: score_computeAura Math_round_Ints x_def)
next
  case False
  have "0 \<le> Math_round (clamp (weighted (computeBreakdown i)) 0 100)
      \<and> Math_round (clamp (weighted (computeBreakdown i)) 0 100) \<le> 100"
    using Math_round_clamp_range [of 0 100 "weighted (computeBreakdown i)"] by simp
  then show ?thesis using False by (simp add: score_computeAura Math_round_Ints)
qed

lemma lurker_score_range:
  assumes "type (computeAura i) = LURKER"
  shows "10 \<le> score (computeAura i) \<and> score (computeAura i) \<le> 60"
proof -
  define p where "p = dmul (weighted (computeBreakdown i)) lit_0_7"
  define x where "x = dadd p 10"
  have "pickAuraType i (computeBreakdown i) = LURKER"
    using assms by (simp only: type_computeAura)
  then have s: "score (computeAura i) = Math_round (clamp x 0 60)"
    by (simp add: score_computeAura x_def p_def)
  have "0 \<le> p"
    unfolding p_def using weighted_nonneg lit_nonneg(11) by (rule dmul_nonneg)
  then have "real_of_int 10 \<le> p + 10" by simp
  then have "real_of_int 10 \<le> binary64 (p + 10)" by (rule binary64_ge_int) simp_all
  then have "real_of_int 10 \<le> clamp x 0 60" by (simp add: clamp_def x_def dadd_def)
  then have "real_of_int 10 \<le> Math_round (clamp x 0 60)"
    by (rule Math_round_ge)
  moreover have "Math_round (clamp x 0 60) \<le> 60"
    using Math_round_clamp_range [of 0 60 x] by simp
  ultimately show ?thesis by (simp add: s)
qed

lemma isLurker_override: "isLurker i b = override i b"
  by (simp add: isLurker_def override_def Let_def)

lemma pickAuraType_override: "override i b \<Longrightarrow> pickAuraType i b = LURKER"
  by (simp add: pickAuraType_def isLurker_override)

lemma no_footprint_LURKER: "type (computeAura no_footprint) = LURKER"
  by (simp add: type_computeAura pickAuraType_override override_def no_footprint_def)

text \<open>
  C1. For every input record, the score is an integer in [0,100], each of the five
  dimensions of the breakdown is an integer in [0,100], and the score of a LURKER
  result lies in [10,60].
\<close>

theorem computeAura_ranges:
  "score (computeAura i) \<in> \<int> \<and> 0 \<le> score (computeAura i) \<and> score (computeAura i) \<le> 100
   \<and> (\<forall>d \<in> set dimensions.
         d (breakdown (computeAura i)) \<in> \<int> \<and> 0 \<le> d (breakdown (computeAura i))
         \<and> d (breakdown (computeAura i)) \<le> 100)
   \<and> (type (computeAura i) = LURKER \<longrightarrow>
         10 \<le> score (computeAura i) \<and> score (computeAura i) \<le> 60)"
  using score_range [of i] lurker_score_range [of i] dimension_range [of _ i]
  by (simp add: breakdown_computeAura)

theorem computeAura_ranges_witness:
  "type (computeAura no_footprint) = LURKER
   \<and> 10 \<le> score (computeAura no_footprint) \<and> score (computeAura no_footprint) \<le> 60
   \<and> activity (breakdown (computeAura no_footprint)) \<in> \<int>
   \<and> 0 \<le> activity (breakdown (computeAura no_footprint))
   \<and> activity (breakdown (computeAura no_footprint)) \<le> 100"
  using computeAura_ranges [of no_footprint] no_footprint_LURKER
  by (simp add: dimensions_def)

section \<open>The LURKER override\<close>

lemma one_cast_whale_override:
  "override one_cast_whale b"
  by (simp add: override_def one_cast_whale_def)

text \<open>
  C3. When casts + replies, each floored at 0, is at most 2, or activity, impact and
  social of the breakdown are all at most 12, the result is LURKER whatever the other
  inputs are: \<open>pickAuraType\<close> answers LURKER on any breakdown, so no affinity decides.
  In particular every input with casts 1, replies 0, reactionsReceived 1000 and
  followers 1000000 is a LURKER.
\<close>

theorem lurker_override:
  "(override i (breakdown (computeAura i)) \<longrightarrow> type (computeAura i) = LURKER)
   \<and> (override i b \<longrightarrow> pickAuraType i b = LURKER)
   \<and> (casts i = 1 \<and> replies i = 0 \<and> reactionsReceived i = 1000 \<and> followers i = 1000000
        \<longrightarrow> type (computeAura i) = LURKER)"
proof (intro conjI impI)
  assume "override i (breakdown (computeAura i))"
  then show "type (computeAura i) = LURKER"
    by (simp add: type_computeAura breakdown_computeAura pickAuraType_override)
next
  assume "override i b"
  then show "pickAuraType i b = LURKER" by (rule pickAuraType_override)
next
  assume "casts i = 1 \<and> replies i = 0 \<and> reactionsReceived i = 1000 \<and> followers i = 1000000"
  then have "override i (computeBreakdown i)" by (simp add: override_def)
  then show "type (computeAura i) = LURKER"
    by (simp add: type_computeAura pickAuraType_override)
qed

theorem lurker_override_witness:
  "override one_cast_whale (breakdown (computeAura one_cast_whale))
   \<and> type (computeAura one_cast_whale) = LURKER
   \<and> \<not> max 0 (casts power_user) + max 0 (replies power_user) \<le> 2
   \<and> override power_user quiet_breakdown
   \<and> pickAuraType power_user quiet_breakdown = LURKER"
proof -
  have a: "override one_cast_whale (breakdown (computeAura one_cast_whale))"
    by (rule one_cast_whale_override)
  have b: "override power_user quiet_breakdown"
    by (simp add: override_def quiet_breakdown_def)
  have c: "\<not> max 0 (casts power_user) + max 0 (replies power_user) \<le> 2"
    by (simp add: power_user_def)
  show ?thesis
    using a b c lurker_override [of one_cast_whale quiet_breakdown]
      lurker_override [of power_user quiet_breakdown]
    by simp
qed

section \<open>The choice among the five affinities\<close>

lemma map_fst_entries: "map fst (entries i b) = [BUILDER, CREATOR, INFLUENCER, THINKER, DEGEN]"
  by (simp add: entries_def Let_def)

lemma length_entries: "length (entries i b) = 5"
  using arg_cong [OF map_fst_entries [of i b], of length] by simp

lemma pickAuraType_first_max:
  assumes "\<not> override i b"
  shows "\<exists>k<5. pickAuraType i b = fst (entries i b ! k)
     \<and> (\<forall>j<5. snd (entries i b ! j) \<le> snd (entries i b ! k))
     \<and> (\<forall>j<k. snd (entries i b ! j) < snd (entries i b ! k))"
proof -
  have "entries i b \<noteq> []" using length_entries [of i b] by auto
  from hd_sort_first_max [OF this]
  obtain k where k: "k < length (entries i b)"
    "hd (Array_sort (\<lambda>a b. snd b - snd a) (entries i b)) = entries i b ! k"
    "\<forall>j<length (entries i b). snd (entries i b ! j) \<le> snd (entries i b ! k)"
    "\<forall>j<k. snd (entries i b ! j) < snd (entries i b ! k)"
    by blast
  have "pickAuraType i b = fst (entries i b ! k)"
    using assms k(2) by (simp add: pickAuraType_def isLurker_override)
  then show ?thesis using k by (auto simp add: length_entries)
qed

lemma pickAuraType_not_LURKER:
  assumes "\<not> override i b"
  shows "pickAuraType i b \<in> {BUILDER, CREATOR, INFLUENCER, THINKER, DEGEN}"
proof -
  obtain k where k: "k < 5" "pickAuraType i b = fst (entries i b ! k)"
    using pickAuraType_first_max [OF assms] by blast
  have "fst (entries i b ! k) = map fst (entries i b) ! k"
    using k(1) by (simp add: length_entries)
  also have "\<dots> \<in> set (map fst (entries i b))"
    using k(1) by (intro nth_mem) (simp add: length_entries)
  finally show ?thesis using k(2) by (simp add: map_fst_entries)
qed

lemma power_user_activity: "activity (computeBreakdown power_user) = 100"
  by (simp add: activity_computeBreakdown power_user_def logScore_saturates)

text \<open>
  C10. LURKER is returned only by the override: when casts + replies, each floored at 0,
  exceeds 2 and one of activity, impact, social exceeds 12, the type is one of BUILDER,
  CREATOR, INFLUENCER, THINKER, DEGEN; and a LURKER result implies the override.
\<close>

theorem lurker_only_by_override:
  "(max 0 (casts i) + max 0 (replies i) > 2
      \<and> (activity (breakdown (computeAura i)) > 12 \<or> impact (breakdown (computeAura i)) > 12
          \<or> social (breakdown (computeAura i)) > 12)
     \<longrightarrow> type (computeAura i) \<in> {BUILDER, CREATOR, INFLUENCER, THINKER, DEGEN}
         \<and> type (computeAura i) \<noteq> LURKER)
   \<and> (type (computeAura i) = LURKER \<longrightarrow> override i (breakdown (computeAura i)))"
proof -
  have a: "type (computeAura i) \<in> {BUILDER, CREATOR, INFLUENCER, THINKER, DEGEN}"
    if "\<not> override i (computeBreakdown i)"
    using pickAuraType_not_LURKER [OF that] by (simp add: type_computeAura)
  have b: "\<not> override i (computeBreakdown i)"
    if "max 0 (casts i) + max 0 (replies i) > 2
      \<and> (activity (computeBreakdown i) > 12 \<or> impact (computeBreakdown i) > 12
          \<or> social (computeBreakdown i) > 12)"
    using that by (auto simp add: override_def)
  have c: "override i (computeBreakdown i)" if "type (computeAura i) = LURKER"
  proof (rule ccontr)
    assume "\<not> override i (computeBreakdown i)"
    from a [OF this] that show False by simp
  qed
  show ?thesis
    unfolding breakdown_computeAura
  proof (intro conjI impI)
    assume h: "max 0 (casts i) + max 0 (replies i) > 2
      \<and> (activity (computeBreakdown i) > 12 \<or> impact (computeBreakdown i) > 12
          \<or> social (computeBreakdown i) > 12)"
    show "type (computeAura i) \<in> {BUILDER, CREATOR, INFLUENCER, THINKER, DEGEN}"
      using a [OF b [OF h]] .
    then show "type (computeAura i) \<noteq> LURKER" by auto
  next
    assume "type (computeAura i) = LURKER"
    then show "override i (computeBreakdown i)" by (rule c)
  qed
qed

theorem lurker_only_by_override_witness:
  "max 0 (casts power_user) + max 0 (replies power_user) > 2
   \<and> activity (breakdown (computeAura power_user)) > 12
   \<and> type (computeAura power_user) \<in> {BUILDER, CREATOR, INFLUENCER, THINKER, DEGEN}
   \<and> type (computeAura power_user) \<noteq> LURKER
   \<and> type (computeAura no_footprint) = LURKER
   \<and> override no_footprint (breakdown (computeAura no_footprint))"
proof -
  have a: "max 0 (casts power_user) + max 0 (replies power_user) > 2"
    by (simp add: power_user_def)
  have b: "activity (breakdown (computeAura power_user)) > 12"
    by (simp add: breakdown_computeAura power_user_activity)
  show ?thesis
    using a b lurker_only_by_override [of power_user] lurker_only_by_override [of no_footprint]
      no_footprint_LURKER
    by simp
qed

section \<open>Saturation and monotonicity of the dimensions\<close>

lemma style_saturates:
  assumes "longCastRatio i = Some l" "mediaCastRatio i = Some m" "1 \<le> l" "1 \<le> m"
  shows "style (computeBreakdown i) = 100"
proof -
  have "clamp01 l = 1" "clamp01 m = 1"
    using assms by (simp_all add: clamp01_def clamp_def)
  then have "style (computeBreakdown i) = Math_round 100"
    using assms by (simp add: style_computeBreakdown nullish_def clamp_def)
  then show ?thesis using Math_round_of_int [of 100] by simp
qed

text \<open>
  C7. A raw value at or above the cap of its dimension gives the dimension exactly 100:
  \<open>logScore\<close> for any cap of at least 1, hence activity (cap 120, raw value
  casts + 1.2 * replies), impact (cap 250), social (cap 2000) and onchain (cap 40).
  The style dimension has no cap; it is 100 when both ratios are at or above 1.
\<close>

theorem dimensions_saturate:
  "(1 \<le> c \<and> c \<le> v \<longrightarrow> logScore v c = 100)
   \<and> (120 \<le> casts i + replies i * (12 / 10) \<longrightarrow> activity (breakdown (computeAura i)) = 100)
   \<and> (250 \<le> reactionsReceived i \<longrightarrow> impact (breakdown (computeAura i)) = 100)
   \<and> (2000 \<le> followers i \<longrightarrow> social (breakdown (computeAura i)) = 100)
   \<and> (baseTxCount i = Some t \<and> 40 \<le> t \<longrightarrow> onchain (breakdown (computeAura i)) = 100)
   \<and> (longCastRatio i = Some l \<and> mediaCastRatio i = Some m \<and> 1 \<le> l \<and> 1 \<le> m
        \<longrightarrow> style (breakdown (computeAura i)) = 100)"
proof (intro conjI impI)
  assume "1 \<le> c \<and> c \<le> v"
  then show "logScore v c = 100" by (intro logScore_saturates) simp
next
  assume "120 \<le> casts i + replies i * (12 / 10)"
  then show "activity (breakdown (computeAura i)) = 100"
    unfolding breakdown_computeAura activity_computeBreakdown
    by (intro logScore_saturates) simp
next
  assume "250 \<le> reactionsReceived i"
  then show "impact (breakdown (computeAura i)) = 100"
    unfolding breakdown_computeAura impact_computeBreakdown
    by (intro logScore_saturates) simp
next
  assume "2000 \<le> followers i"
  then show "social (breakdown (computeAura i)) = 100"
    unfolding breakdown_computeAura social_computeBreakdown
    by (intro logScore_saturates) simp
next
  assume "baseTxCount i = Some t \<and> 40 \<le> t"
  then have "max 1 40 \<le> max 0 (nullish (baseTxCount i) 0)" by (simp add: nullish_def)
  then show "onchain (breakdown (computeAura i)) = 100"
    unfolding breakdown_computeAura onchain_computeBreakdown
    by (rule logScore_saturates)
next
  assume "longCastRatio i = Some l \<and> mediaCastRatio i = Some m \<and> 1 \<le> l \<and> 1 \<le> m"
  then show "style (breakdown (computeAura i)) = 100"
    unfolding breakdown_computeAura using style_saturates [of i l m] by simp
qed

theorem dimensions_saturate_witness:
  "logScore 120 120 = 100 \<and> logScore 1000000 2000 = 100
   \<and> activity (breakdown (computeAura power_user)) = 100
   \<and> impact (breakdown (computeAura power_user)) = 100
   \<and> social (breakdown (computeAura power_user)) = 100
   \<and> onchain (breakdown (computeAura power_user)) = 100
   \<and> style (breakdown (computeAura power_user)) = 100"
  using dimensions_saturate [of 120 120 power_user 60 1 1]
    dimensions_saturate [of 2000 1000000 power_user 60 1 1]
  by (simp add: power_user_def)

text \<open>
  C6. Replacing one raw count by a larger value, the other fields held fixed, never
  decreases its dimension: activity for casts and for replies, impact for
  reactionsReceived, social for followers, onchain for baseTxCount (an absent
  baseTxCount counting as 0).
\<close>

theorem dimensions_monotone:
  "(casts i \<le> x \<longrightarrow>
      activity (breakdown (computeAura i))
        \<le> activity (breakdown (computeAura (i\<lparr>casts := x\<rparr>))))
   \<and> (replies i \<le> x \<longrightarrow>
      activity (breakdown (computeAura i))
        \<le> activity (breakdown (computeAura (i\<lparr>replies := x\<rparr>))))
   \<and> (reactionsReceived i \<le> x \<longrightarrow>
      impact (breakdown (computeAura i))
        \<le> impact (breakdown (computeAura (i\<lparr>reactionsReceived := x\<rparr>))))
   \<and> (followers i \<le> x \<longrightarrow>
      social (breakdown (computeAura i))
        \<le> social (breakdown (computeAura (i\<lparr>followers := x\<rparr>))))
   \<and> (nullish (baseTxCount i) 0 \<le> x \<longrightarrow>
      onchain (breakdown (computeAura i))
        \<le> onchain (breakdown (computeAura (i\<lparr>baseTxCount := Some x\<rparr>))))"
proof (intro conjI impI)
  assume "casts i \<le> x"
  then show "activity (breakdown (computeAura i))
      \<le> activity (breakdown (computeAura (i\<lparr>casts := x\<rparr>)))"
    unfolding breakdown_computeAura activity_computeBreakdown
    by (intro logScore_mono) simp
next
  assume "replies i \<le> x"
  then show "activity (breakdown (computeAura i))
      \<le> activity (breakdown (computeAura (i\<lparr>replies := x\<rparr>)))"
    unfolding breakdown_computeAura activity_computeBreakdown
    by (intro logScore_mono) simp
next
  assume "reactionsReceived i \<le> x"
  then show "impact (breakdown (computeAura i))
      \<le> impact (breakdown (computeAura (i\<lparr>reactionsReceived := x\<rparr>)))"
    unfolding breakdown_computeAura impact_computeBreakdown
    by (intro logScore_mono) simp
next
  assume "followers i \<le> x"
  then show "social (breakdown (computeAura i))
      \<le> social (breakdown (computeAura (i\<lparr>followers := x\<rparr>)))"
    unfolding breakdown_computeAura social_computeBreakdown
    by (intro logScore_mono) simp
next
  assume "nullish (baseTxCount i) 0 \<le> x"
  then show "onchain (breakdown (computeAura i))
      \<le> onchain (breakdown (computeAura (i\<lparr>baseTxCount := Some x\<rparr>)))"
    unfolding breakdown_computeAura onchain_computeBreakdown
    by (intro logScore_mono) (simp add: nullish_def)
qed

theorem dimensions_monotone_witness:
  "activity (breakdown (computeAura no_footprint))
     \<le> activity (breakdown (computeAura (no_footprint\<lparr>casts := 7\<rparr>)))
   \<and> activity (breakdown (computeAura no_footprint))
     \<le> activity (breakdown (computeAura (no_footprint\<lparr>replies := 7\<rparr>)))
   \<and> impact (breakdown (computeAura no_footprint))
     \<le> impact (breakdown (computeAura (no_footprint\<lparr>reactionsReceived := 7\<rparr>)))
   \<and> social (breakdown (computeAura no_footprint))
     \<le> social (breakdown (computeAura (no_footprint\<lparr>followers := 7\<rparr>)))
   \<and> onchain (breakdown (computeAura no_footprint))
     \<le> onchain (breakdown (computeAura (no_footprint\<lparr>baseTxCount := Some 7\<rparr>)))"
proof -
  have "casts no_footprint \<le> 7" "replies no_footprint \<le> 7"
    "reactionsReceived no_footprint \<le> 7" "followers no_footprint \<le> 7"
    "nullish (baseTxCount no_footprint) 0 \<le> 7"
    by (simp_all add: no_footprint_def nullish_def)
  then show ?thesis
    using dimensions_monotone [of no_footprint 7] by simp
qed

section \<open>The base of the logarithm\<close>

lemma log_ratio_base:
  assumes "0 < b" "b \<noteq> 1"
  shows "log b x / log b y = Math_log10 x / Math_log10 y"
proof -
  have "ln b \<noteq> 0" using assms by simp
  then show ?thesis by (simp add: Math_log10_def log_def)
qed

text \<open>
  C4. For every raw value \<open>v\<close> and every cap \<open>c\<close>, \<open>logScore\<close> returns
  \<open>round(clamp(log(1 + max(0,v)) / log(1 + max(1,c)) * 100, 0, 100))\<close>, the logarithm
  taken to any base (positive and other than 1), since the base cancels in the ratio.
  The right-hand side is written with \<open>min\<close>, \<open>max\<close> and the floor only: the clamp
  into [0,100] is \<open>min 100 (max 0 x)\<close> and the rounding is \<open>\<lfloor>x + 1/2\<rfloor>\<close>.
\<close>

theorem logScore_any_base:
  "0 < b \<Longrightarrow> b \<noteq> 1 \<Longrightarrow>
   logScore v c
     = of_int \<lfloor>min 100 (max 0 (log b (1 + max 0 v) / log b (1 + max 1 c) * 100)) + 1 / 2\<rfloor>"
proof -
  assume b: "0 < b" "b \<noteq> 1"
  have "log b (1 + max 0 v) / log b (1 + max 1 c)
      = Math_log10 (1 + max 0 v) / Math_log10 (1 + max 1 c)"
    using b by (rule log_ratio_base)
  then show ?thesis
    by (simp only: logScore_def Let_def clamp_def Math_round_def)
qed

theorem logScore_any_base_witness:
  "logScore 17 120
     = of_int \<lfloor>min 100 (max 0 (log 2 (1 + max 0 17) / log 2 (1 + max 1 120) * 100)) + 1 / 2\<rfloor>
   \<and> logScore 17 120
     = of_int \<lfloor>min 100 (max 0 (log (exp 1) (1 + max 0 17) / log (exp 1) (1 + max 1 120) * 100))
                + 1 / 2\<rfloor>
   \<and> logScore (- 3) 0
     = of_int \<lfloor>min 100 (max 0 (log (1 / 2) (1 + max 0 (- 3)) / log (1 / 2) (1 + max 1 0) * 100))
                + 1 / 2\<rfloor>"
  using logScore_any_base [of 2 17 120] logScore_any_base [of "exp 1" 17 120]
    logScore_any_base [of "1 / 2" "- 3" 0]
  by simp

section \<open>The scenario with heavy onchain activity\<close>

lemma onchain_heavy_breakdown:
  "computeBreakdown onchain_heavy =
     \<lparr>activity = 54, impact = 32, social = 40, style = 0, onchain = 100\<rparr>"
proof -
  have raw: "casts onchain_heavy + replies onchain_heavy * (12 / 10) = 62 / 5"
    by (simp add: onchain_heavy_def)
  have a: "logScore (62 / 5) 120 = 54"
    using logScore_eqI [of "62 / 5" 120 54 7 13 24 13] by (simp add: power_divide)
  have b: "logScore 5 250 = 32"
    using logScore_eqI [of 5 250 32 6 19 37 12] by simp
  have c: "logScore 20 2000 = 40"
    using logScore_eqI [of 20 2000 40 2 5 42 17] by simp
  have d: "logScore 60 40 = 100"
    by (rule logScore_saturates) simp
  have e: "style (computeBreakdown onchain_heavy) = 0"
    by (simp add: style_computeBreakdown onchain_heavy_def nullish_def clamp01_def clamp_def
        Math_round_def)
  have "activity (computeBreakdown onchain_heavy) = 54"
    by (simp only: activity_computeBreakdown raw a)
  moreover have "impact (computeBreakdown onchain_heavy) = 32"
    using b by (simp add: impact_computeBreakdown onchain_heavy_def)
  moreover have "social (computeBreakdown onchain_heavy) = 40"
    using c by (simp add: social_computeBreakdown onchain_heavy_def)
  moreover have "onchain (computeBreakdown onchain_heavy) = 100"
    using d by (simp add: onchain_computeBreakdown onchain_heavy_def nullish_def)
  ultimately show ?thesis using e by (intro AuraBreakdown.equality) simp_all
qed

lemma onchain_heavy_entries:
  "entries onchain_heavy (computeBreakdown onchain_heavy) =
     [(BUILDER, 2730307274093363 / 70368744177664),
      (CREATOR, 2871044762448691 / 281474976710656),
      (INFLUENCER, 2659938529915699 / 70368744177664),
      (THINKER, 2659938529915699 / 140737488355328),
      (DEGEN, 2835860390359859 / 35184372088832)]"
  by (simp add: onchain_heavy_breakdown entries_def Let_def)
     (simp add: onchain_heavy_def nullish_def clamp01_def clamp_def zero_not_above_lit_0_35
       dmul_zero double_steps)

lemma onchain_heavy_DEGEN: "pickAuraType onchain_heavy (computeBreakdown onchain_heavy) = DEGEN"
proof -
  have "\<not> isLurker onchain_heavy (computeBreakdown onchain_heavy)"
    by (simp add: isLurker_def Let_def onchain_heavy_breakdown) (simp add: onchain_heavy_def)
  then show ?thesis
    by (simp add: pickAuraType_def onchain_heavy_entries Array_sort_def)
qed

text \<open>
  C9. On \<open>{casts: 10, replies: 2, reactionsReceived: 5, followers: 20, baseTxCount: 60}\<close>
  with both ratio fields absent, the onchain dimension is exactly 100 and the archetype
  is DEGEN.
\<close>

theorem onchain_heavy_is_DEGEN:
  "onchain (breakdown (computeAura onchain_heavy)) = 100
   \<and> type (computeAura onchain_heavy) = DEGEN"
proof -
  have "onchain (computeBreakdown onchain_heavy) = 100"
    by (simp add: onchain_heavy_breakdown)
  then show ?thesis
    by (simp only: breakdown_computeAura type_computeAura onchain_heavy_DEGEN simp_thms)
qed

section \<open>Ties between affinities\<close>

lemma pickAuraType_split:
  assumes "\<not> override i b"
  shows "\<exists>pre s post. entries i b = pre @ (pickAuraType i b, s) # post
     \<and> (\<forall>e \<in> set pre. snd e < s) \<and> (\<forall>e \<in> set post. snd e \<le> s)"
proof -
  obtain k where k: "k < 5" "pickAuraType i b = fst (entries i b ! k)"
    "\<forall>j<5. snd (entries i b ! j) \<le> snd (entries i b ! k)"
    "\<forall>j<k. snd (entries i b ! j) < snd (entries i b ! k)"
    using pickAuraType_first_max [OF assms] by blast
  define es where "es = entries i b"
  have len: "length es = 5" by (simp add: es_def length_entries)
  have "es = take k es @ es ! k # drop (Suc k) es"
    using k(1) len by (intro id_take_nth_drop) simp
  then have split: "es = take k es @ (pickAuraType i b, snd (es ! k)) # drop (Suc k) es"
    using k(2) by (simp add: es_def)
  have pre: "\<forall>e \<in> set (take k es). snd e < snd (es ! k)"
  proof
    fix e assume "e \<in> set (take k es)"
    then obtain j where "j < length (take k es)" "e = take k es ! j"
      by (auto simp add: in_set_conv_nth)
    then show "snd e < snd (es ! k)" using k(4) by (simp add: es_def)
  qed
  have post: "\<forall>e \<in> set (drop (Suc k) es). snd e \<le> snd (es ! k)"
  proof
    fix e assume "e \<in> set (drop (Suc k) es)"
    then have "e \<in> set es" by (rule in_set_dropD)
    then obtain j where "j < length es" "e = es ! j"
      by (auto simp add: in_set_conv_nth)
    then show "snd e \<le> snd (es ! k)" using k(3) len by (simp add: es_def)
  qed
  show ?thesis
    using split pre post unfolding es_def by blast
qed

lemma pickAuraType_BUILDER:
  assumes "\<not> override i b"
    and "\<forall>e \<in> set (entries i b). snd e \<le> snd (entries i b ! 0)"
  shows "pickAuraType i b = BUILDER"
proof -
  obtain k where k: "k < 5" "pickAuraType i b = fst (entries i b ! k)"
    "\<forall>j<k. snd (entries i b ! j) < snd (entries i b ! k)"
    using pickAuraType_first_max [OF assms(1)] by blast
  have "k = 0"
  proof (rule ccontr)
    assume "k \<noteq> 0"
    then have "snd (entries i b ! 0) < snd (entries i b ! k)" using k(3) by simp
    moreover have "entries i b ! k \<in> set (entries i b)"
      using k(1) by (intro nth_mem) (simp add: length_entries)
    ultimately show False using assms(2) by fastforce
  qed
  then have "pickAuraType i b = map fst (entries i b) ! 0"
    using k(2) by (simp add: length_entries)
  then show ?thesis by (simp add: map_fst_entries)
qed

lemma builder_creator_tie_breakdown:
  "computeBreakdown builder_creator_tie =
     \<lparr>activity = 60, impact = 75, social = 0, style = 45, onchain = 0\<rparr>"
proof -
  have a: "logScore 17 120 = 60"
    using logScore_eqI [of 17 120 60 3 5 43 26] by simp
  have b: "logScore 62 250 = 75"
    using logScore_eqI [of 62 250 75 38 51 4 3] by simp
  have "style (computeBreakdown builder_creator_tie) = Math_round 45"
    by (simp add: style_computeBreakdown builder_creator_tie_def nullish_def clamp01_def
        clamp_def)
  then have e: "style (computeBreakdown builder_creator_tie) = 45"
    using Math_round_of_int [of 45] by simp
  have "activity (computeBreakdown builder_creator_tie) = 60"
    using a by (simp add: activity_computeBreakdown builder_creator_tie_def)
  moreover have "impact (computeBreakdown builder_creator_tie) = 75"
    using b by (simp add: impact_computeBreakdown builder_creator_tie_def)
  moreover have "social (computeBreakdown builder_creator_tie) = 0"
    by (simp add: social_computeBreakdown builder_creator_tie_def logScore_nonpos)
  moreover have "onchain (computeBreakdown builder_creator_tie) = 0"
    by (simp add: onchain_computeBreakdown builder_creator_tie_def nullish_def logScore_nonpos)
  ultimately show ?thesis using e by (intro AuraBreakdown.equality) simp_all
qed

lemma builder_creator_tie_entries:
  "entries builder_creator_tie (computeBreakdown builder_creator_tie) =
     [(BUILDER, 51),
      (CREATOR, 51),
      (INFLUENCER, 159 / 4),
      (THINKER, 183 / 4),
      (DEGEN, 93 / 4)]"
  by (simp add: builder_creator_tie_breakdown entries_def Let_def)
     (simp add: builder_creator_tie_def nullish_def clamp01_def clamp_def
       zero_not_above_lit_0_35 dmul_zero double_steps)

lemma builder_creator_tie_no_override:
  "\<not> override builder_creator_tie (computeBreakdown builder_creator_tie)"
  by (simp add: override_def builder_creator_tie_breakdown) (simp add: builder_creator_tie_def)

text \<open>
  A tie in exact arithmetic that is none in doubles: on
  \<open>{casts: 0, replies: 10, baseTxCount: 5}\<close> the builder and degen affinities are both
  41.8 in the reals, but the doubles are 41.8 and 41.800000000000004.
\<close>

lemma near_tie_breakdown:
  "computeBreakdown near_tie =
     \<lparr>activity = 53, impact = 0, social = 0, style = 0, onchain = 48\<rparr>"
proof -
  have a: "logScore 12 120 = 53"
    using logScore_eqI [of 12 120 53 8 15 43 23] by simp
  have b: "logScore 5 40 = 48"
    using logScore_eqI [of 5 40 48 10 21 29 14] by simp
  have e: "style (computeBreakdown near_tie) = 0"
    by (simp add: style_computeBreakdown near_tie_def nullish_def clamp01_def clamp_def
        Math_round_def)
  have "activity (computeBreakdown near_tie) = 53"
    using a by (simp add: activity_computeBreakdown near_tie_def)
  moreover have "impact (computeBreakdown near_tie) = 0"
    by (simp add: impact_computeBreakdown near_tie_def logScore_nonpos)
  moreover have "social (computeBreakdown near_tie) = 0"
    by (simp add: social_computeBreakdown near_tie_def logScore_nonpos)
  moreover have "onchain (computeBreakdown near_tie) = 48"
    using b by (simp add: onchain_computeBreakdown near_tie_def nullish_def)
  ultimately show ?thesis using e by (intro AuraBreakdown.equality) simp_all
qed

lemma near_tie_entries:
  "entries near_tie (computeBreakdown near_tie) =
     [(BUILDER, 2941413506626355 / 70368744177664),
      (CREATOR, 1491817376566477 / 281474976710656),
      (INFLUENCER, 1491817376566477 / 281474976710656),
      (THINKER, 1305340204495667 / 70368744177664),
      (DEGEN, 5882827013252711 / 140737488355328)]"
  by (simp add: near_tie_breakdown entries_def Let_def)
     (simp add: near_tie_def nullish_def clamp01_def clamp_def zero_not_above_lit_0_35
       dmul_zero dadd_zero_zero double_steps)

lemma near_tie_DEGEN: "pickAuraType near_tie (computeBreakdown near_tie) = DEGEN"
proof -
  have "\<not> isLurker near_tie (computeBreakdown near_tie)"
    by (simp add: isLurker_def Let_def near_tie_breakdown) (simp add: near_tie_def)
  then show ?thesis
    by (simp add: pickAuraType_def near_tie_entries Array_sort_def)
qed

text \<open>
  C5. When the override does not apply, the archetype returned is the one of greatest
  affinity, and among equal greatest affinities the one listed first in
  [BUILDER, CREATOR, INFLUENCER, THINKER, DEGEN]: every archetype listed before it has a
  strictly smaller affinity, every one listed after it an affinity that is no greater.
  In particular, when the builder and creator affinities are equal and no affinity is
  greater, BUILDER is returned. The affinities are the doubles the source computes.
\<close>

theorem greatest_affinity_first_listed:
  "\<not> override i (breakdown (computeAura i)) \<longrightarrow>
     map fst (entries i (breakdown (computeAura i)))
       = [BUILDER, CREATOR, INFLUENCER, THINKER, DEGEN]
     \<and> (\<exists>pre s post.
           entries i (breakdown (computeAura i)) = pre @ (type (computeAura i), s) # post
           \<and> (\<forall>e \<in> set pre. snd e < s) \<and> (\<forall>e \<in> set post. snd e \<le> s))
     \<and> (snd (entries i (breakdown (computeAura i)) ! 0)
           = snd (entries i (breakdown (computeAura i)) ! 1)
         \<and> (\<forall>e \<in> set (entries i (breakdown (computeAura i))).
               snd e \<le> snd (entries i (breakdown (computeAura i)) ! 0))
         \<longrightarrow> type (computeAura i) = BUILDER)"
  unfolding breakdown_computeAura type_computeAura
proof (intro impI conjI)
  show "map fst (entries i (computeBreakdown i)) = [BUILDER, CREATOR, INFLUENCER, THINKER, DEGEN]"
    by (rule map_fst_entries)
next
  assume "\<not> override i (computeBreakdown i)"
  then show "\<exists>pre s post.
      entries i (computeBreakdown i) = pre @ (pickAuraType i (computeBreakdown i), s) # post
      \<and> (\<forall>e \<in> set pre. snd e < s) \<and> (\<forall>e \<in> set post. snd e \<le> s)"
    by (rule pickAuraType_split)
next
  assume "\<not> override i (computeBreakdown i)"
    and "snd (entries i (computeBreakdown i) ! 0) = snd (entries i (computeBreakdown i) ! 1)
      \<and> (\<forall>e \<in> set (entries i (computeBreakdown i)).
            snd e \<le> snd (entries i (computeBreakdown i) ! 0))"
  then show "pickAuraType i (computeBreakdown i) = BUILDER"
    using pickAuraType_BUILDER [of i "computeBreakdown i"] by blast
qed

theorem greatest_affinity_first_listed_witness:
  "\<not> override builder_creator_tie (breakdown (computeAura builder_creator_tie))
   \<and> entries builder_creator_tie (breakdown (computeAura builder_creator_tie)) =
       [(BUILDER, 51),
        (CREATOR, 51),
        (INFLUENCER, 159 / 4),
        (THINKER, 183 / 4),
        (DEGEN, 93 / 4)]
   \<and> type (computeAura builder_creator_tie) = BUILDER
   \<and> \<not> override near_tie (breakdown (computeAura near_tie))
   \<and> snd (entries near_tie (breakdown (computeAura near_tie)) ! 0)
       < snd (entries near_tie (breakdown (computeAura near_tie)) ! 4)
   \<and> type (computeAura near_tie) = DEGEN"
proof -
  have a: "\<not> override builder_creator_tie (breakdown (computeAura builder_creator_tie))"
    by (simp only: breakdown_computeAura builder_creator_tie_no_override simp_thms)
  have b: "entries builder_creator_tie (breakdown (computeAura builder_creator_tie)) =
       [(BUILDER, 51),
        (CREATOR, 51),
        (INFLUENCER, 159 / 4),
        (THINKER, 183 / 4),
        (DEGEN, 93 / 4)]"
    by (simp only: breakdown_computeAura builder_creator_tie_entries)
  have c: "\<not> override near_tie (breakdown (computeAura near_tie))"
    by (simp add: breakdown_computeAura override_def near_tie_breakdown)
       (simp add: near_tie_def)
  have d: "snd (entries near_tie (breakdown (computeAura near_tie)) ! 0)
      < snd (entries near_tie (breakdown (computeAura near_tie)) ! 4)"
    by (simp add: breakdown_computeAura near_tie_entries)
  have e: "type (computeAura near_tie) = DEGEN"
    by (simp only: type_computeAura near_tie_DEGEN)
  show ?thesis
    using a b c d e greatest_affinity_first_listed [of builder_creator_tie]
    by simp
qed

section \<open>The display strings\<close>

lemma meta_source_display: "meta t = source_display t"
  by (cases t) (simp_all add: meta_def source_display_def spec_display_def)

text \<open>
  C8, as stated, fails: the DEGEN description of the source has the apostrophe
  \<open>U+2019\<close> where the table of the specification has the ASCII apostrophe, so a DEGEN
  result does not carry the specification's description verbatim.
\<close>

theorem display_differs_from_spec_table:
  "type (computeAura onchain_heavy) = DEGEN
   \<and> description (computeAura onchain_heavy)
       \<noteq> ''Onchain instincts. You're early, often, and unbothered.''
   \<and> (emoji (computeAura onchain_heavy), label (computeAura onchain_heavy),
        description (computeAura onchain_heavy))
       \<noteq> spec_display (type (computeAura onchain_heavy))"
proof -
  have t: "type (computeAura onchain_heavy) = DEGEN"
    by (simp only: type_computeAura onchain_heavy_DEGEN)
  have "(emoji (computeAura onchain_heavy), label (computeAura onchain_heavy),
      description (computeAura onchain_heavy)) = meta DEGEN"
    by (simp only: display_computeAura onchain_heavy_DEGEN)
  then have d: "description (computeAura onchain_heavy) =
      ''Onchain instincts. You'' @ [CHR 0xE2, CHR 0x80, CHR 0x99]
        @ ''re early, often, and unbothered.''"
    by (simp add: meta_def)
  show ?thesis
    by (simp add: t d spec_display_def)
qed

text \<open>
  C8, amended. For every input, emoji, label and description of the result are the
  triple that the table of section 6 lists for the returned archetype, the DEGEN
  description read with the apostrophe \<open>U+2019\<close> of the source; all six archetypes have
  an entry.
\<close>

theorem display_is_source_table:
  "(emoji (computeAura i), label (computeAura i), description (computeAura i))
     = source_display (type (computeAura i))"
  by (simp only: display_computeAura type_computeAura meta_source_display)

theorem display_is_source_table_witness:
  "emoji (computeAura onchain_heavy) = [CHR 0xF0, CHR 0x9F, CHR 0x8E, CHR 0xB0]
   \<and> label (computeAura onchain_heavy) = ''Degen Aura''
   \<and> description (computeAura onchain_heavy) =
       ''Onchain instincts. You'' @ [CHR 0xE2, CHR 0x80, CHR 0x99]
         @ ''re early, often, and unbothered.''
   \<and> emoji (computeAura no_footprint) = [CHR 0xF0, CHR 0x9F, CHR 0x91, CHR 0x80]
   \<and> label (computeAura no_footprint) = ''Lurker Aura''
   \<and> description (computeAura no_footprint) =
       ''Silent watcher. Your aura is mysterious (and powerful).''"
proof -
  have "type (computeAura onchain_heavy) = DEGEN"
    by (simp only: type_computeAura onchain_heavy_DEGEN)
  then show ?thesis
    using display_is_source_table [of onchain_heavy] display_is_source_table [of no_footprint]
      no_footprint_LURKER
    by (simp add: source_display_def spec_display_def)
qed

section \<open>Negative counts\<close>

lemma negative_casts_activity: "activity (computeBreakdown negative_casts) = 0"
  by (simp add: activity_computeBreakdown negative_casts_def logScore_nonpos)

lemma sanitized_negative_casts_activity:
  "activity (computeBreakdown (spec_sanitize negative_casts)) = 100"
  by (simp add: activity_computeBreakdown negative_casts_def spec_sanitize_def
      logScore_saturates)

text \<open>
  C2 on the input \<open>{casts: -1000, replies: 100, reactionsReceived: 0, followers: 0}\<close>:
  \<open>computeAura\<close> adds the raw casts to 1.2 times the raw replies and floors the sum, so
  the activity is 0, where on the sanitised input (casts 0, replies 100) it is 100;
  the two results differ.
\<close>

theorem negative_casts_not_floored:
  "activity (breakdown (computeAura negative_casts)) = 0
   \<and> activity (breakdown (computeAura (spec_sanitize negative_casts))) = 100
   \<and> computeAura negative_casts \<noteq> computeAura (spec_sanitize negative_casts)"
proof -
  have a: "activity (breakdown (computeAura negative_casts)) = 0"
    by (simp only: breakdown_computeAura negative_casts_activity)
  have b: "activity (breakdown (computeAura (spec_sanitize negative_casts))) = 100"
    by (simp only: breakdown_computeAura sanitized_negative_casts_activity)
  have "computeAura negative_casts \<noteq> computeAura (spec_sanitize negative_casts)"
  proof
    assume "computeAura negative_casts = computeAura (spec_sanitize negative_casts)"
    then have "activity (breakdown (computeAura negative_casts))
        = activity (breakdown (computeAura (spec_sanitize negative_casts)))"
      by simp
    then show False using a b by simp
  qed
  then show ?thesis using a b by simp
qed

section \<open>Where sanitising the inputs changes nothing\<close>

lemma logScore_max0: "logScore (max 0 v) c = logScore v c"
  by (simp add: logScore_def)

lemma clamp01_idem: "clamp01 (clamp01 x) = clamp01 x"
  by (simp add: clamp01_def clamp_def)

lemma entries_sanitize: "entries (spec_sanitize i) b = entries i b"
  by (simp add: entries_def spec_sanitize_def nullish_def clamp01_idem)

lemma isLurker_sanitize: "isLurker (spec_sanitize i) b = isLurker i b"
  by (simp add: isLurker_def spec_sanitize_def)

lemma pickAuraType_sanitize: "pickAuraType (spec_sanitize i) b = pickAuraType i b"
  by (simp only: pickAuraType_def entries_sanitize isLurker_sanitize)

lemma computeBreakdown_sanitize:
  assumes "0 \<le> casts i" "0 \<le> replies i"
  shows "computeBreakdown (spec_sanitize i) = computeBreakdown i"
proof -
  have "activity (computeBreakdown (spec_sanitize i)) = activity (computeBreakdown i)"
    using assms by (simp add: activity_computeBreakdown spec_sanitize_def)
  moreover have "impact (computeBreakdown (spec_sanitize i)) = impact (computeBreakdown i)"
    by (simp add: impact_computeBreakdown spec_sanitize_def logScore_max0)
  moreover have "social (computeBreakdown (spec_sanitize i)) = social (computeBreakdown i)"
    by (simp add: social_computeBreakdown spec_sanitize_def logScore_max0)
  moreover have "style (computeBreakdown (spec_sanitize i)) = style (computeBreakdown i)"
    by (simp add: style_computeBreakdown spec_sanitize_def nullish_def clamp01_idem)
  moreover have "onchain (computeBreakdown (spec_sanitize i)) = onchain (computeBreakdown i)"
    by (simp add: onchain_computeBreakdown spec_sanitize_def nullish_def)
  ultimately show ?thesis by (intro AuraBreakdown.equality) simp_all
qed

text \<open>
  X1. The archetype selection floors and clamps every field it reads:
  \<open>pickAuraType\<close> gives the same answer on the sanitised inputs, for any breakdown.
  With casts and replies that are not negative, so does all of \<open>computeAura\<close>, whatever
  the other fields are (negative counts, ratios outside [0,1], absent optional fields).
\<close>

theorem sanitize_invariant_for_nonnegative_posts:
  "pickAuraType (spec_sanitize i) b = pickAuraType i b
   \<and> (0 \<le> casts i \<and> 0 \<le> replies i \<longrightarrow> computeAura (spec_sanitize i) = computeAura i)"
proof (intro conjI impI)
  show "pickAuraType (spec_sanitize i) b = pickAuraType i b"
    by (rule pickAuraType_sanitize)
next
  assume "0 \<le> casts i \<and> 0 \<le> replies i"
  then have "computeBreakdown (spec_sanitize i) = computeBreakdown i"
    by (intro computeBreakdown_sanitize) simp_all
  then show "computeAura (spec_sanitize i) = computeAura i"
    by (simp add: computeAura_def pickAuraType_sanitize)
qed

theorem sanitize_invariant_for_nonnegative_posts_witness:
  "0 \<le> casts out_of_range \<and> 0 \<le> replies out_of_range
   \<and> reactionsReceived out_of_range < 0
   \<and> computeAura (spec_sanitize out_of_range) = computeAura out_of_range"
proof -
  have "0 \<le> casts out_of_range \<and> 0 \<le> replies out_of_range
      \<and> reactionsReceived out_of_range < 0"
    by (simp add: out_of_range_def)
  then show ?thesis
    using sanitize_invariant_for_nonnegative_posts [of out_of_range] by simp
qed

text \<open>
  X2. On \<open>{casts: 0, replies: 0, reactionsReceived: 0, followers: 0}\<close> the archetype is
  LURKER, the score is 10 and all five dimensions are 0.
\<close>

theorem no_footprint_scenario:
  "type (computeAura no_footprint) = LURKER \<and> score (computeAura no_footprint) = 10
   \<and> breakdown (computeAura no_footprint)
       = \<lparr>activity = 0, impact = 0, social = 0, style = 0, onchain = 0\<rparr>"
proof -
  have b: "computeBreakdown no_footprint
      = \<lparr>activity = 0, impact = 0, social = 0, style = 0, onchain = 0\<rparr>"
    by (simp add: computeBreakdown_def no_footprint_def nullish_def logScore_nonpos
        clamp01_def clamp_def Math_round_def)
  have t: "pickAuraType no_footprint (computeBreakdown no_footprint) = LURKER"
    using no_footprint_LURKER by (simp only: type_computeAura)
  have w: "weighted (computeBreakdown no_footprint) = 0"
    by (simp add: b weighted_def dmul_zero dadd_zero_zero)
  have "score (computeAura no_footprint) = Math_round 10"
    by (simp add: score_computeAura t) (simp add: w dmul_zero double_steps clamp_def)
  then have "score (computeAura no_footprint) = 10"
    using Math_round_of_int [of 10] by simp
  then show ?thesis
    using no_footprint_LURKER b by (simp add: breakdown_computeAura)
qed

text \<open>
  X3. On \<open>{casts: 200, replies: 50, reactionsReceived: 500, followers: 5000,
  baseTxCount: 0}\<close> activity, impact and social are 100, the archetype is INFLUENCER
  and the score is 85.
\<close>

theorem busy_account_scenario:
  "breakdown (computeAura busy_account)
     = \<lparr>activity = 100, impact = 100, social = 100, style = 0, onchain = 0\<rparr>
   \<and> type (computeAura busy_account) = INFLUENCER
   \<and> score (computeAura busy_account) = 85"
proof -
  have b: "computeBreakdown busy_account
      = \<lparr>activity = 100, impact = 100, social = 100, style = 0, onchain = 0\<rparr>"
    by (simp add: computeBreakdown_def busy_account_def nullish_def logScore_nonpos
        logScore_saturates clamp01_def clamp_def Math_round_def)
  have e: "entries busy_account (computeBreakdown busy_account) =
      [(BUILDER, 80),
      (CREATOR, 25),
      (INFLUENCER, 100),
      (THINKER, 35),
      (DEGEN, 35)]"
    by (simp add: b entries_def Let_def)
       (simp add: busy_account_def nullish_def clamp01_def clamp_def zero_not_above_lit_0_35
         dmul_zero dadd_zero_zero double_steps)
  have "\<not> isLurker busy_account (computeBreakdown busy_account)"
    by (simp add: isLurker_def b) (simp add: busy_account_def)
  then have t: "pickAuraType busy_account (computeBreakdown busy_account) = INFLUENCER"
    by (simp add: pickAuraType_def Array_sort_def e)
  have w: "weighted (computeBreakdown busy_account) = 85"
    by (simp add: b weighted_def dmul_zero double_steps)
  have "score (computeAura busy_account) = Math_round 85"
    by (simp add: score_computeAura t w clamp_def)
  then have "score (computeAura busy_account) = 85"
    using Math_round_of_int [of 85] by simp
  then show ?thesis
    using b t by (simp add: breakdown_computeAura type_computeAura)
qed

text \<open>
  X4. On \<open>{casts: 0, replies: 10, reactionsReceived: 0, followers: 0, baseTxCount: 5}\<close>
  the builder affinity is the double 41.8 and the degen affinity the next double above
  it, 41.800000000000004 (in exact arithmetic both are 41.8): the archetype is DEGEN.
\<close>

theorem near_tie_scenario:
  "entries near_tie (breakdown (computeAura near_tie)) =
     [(BUILDER, 2941413506626355 / 70368744177664),
      (CREATOR, 1491817376566477 / 281474976710656),
      (INFLUENCER, 1491817376566477 / 281474976710656),
      (THINKER, 1305340204495667 / 70368744177664),
      (DEGEN, 5882827013252711 / 140737488355328)]
   \<and> type (computeAura near_tie) = DEGEN"
  by (simp only: breakdown_computeAura type_computeAura near_tie_entries near_tie_DEGEN
      simp_thms)

text \<open>
  X5. On \<open>{casts: 9, replies: 0, reactionsReceived: 4, followers: 0}\<close> the breakdown is
  48 / 29 / 0 / 0 / 0 and the weighted sum is the double just under 25.5 (in exact
  arithmetic it is 25.5): the score is 25. On
  \<open>{casts: 1, replies: 0, reactionsReceived: 39, followers: 0}\<close>, a LURKER with
  breakdown 14 / 67 / 0 / 0 / 0, the weighted sum is the double just under 25 and the
  score is 27 (in exact arithmetic 27.5, rounded to 28).
\<close>

theorem half_point_scenario:
  "weighted (breakdown (computeAura half_point)) = 7177611906121727 / 281474976710656
   \<and> type (computeAura half_point) \<noteq> LURKER
   \<and> score (computeAura half_point) = 25
   \<and> weighted (breakdown (computeAura half_point_lurker)) = 7036874417766399 / 281474976710656
   \<and> type (computeAura half_point_lurker) = LURKER
   \<and> score (computeAura half_point_lurker) = 27"
proof -
  have a1: "logScore 9 120 = 48"
    using logScore_eqI [of 9 120 48 10 21 27 13] by simp
  have i1: "logScore 4 250 = 29"
    using logScore_eqI [of 4 250 29 2 7 17 5] by simp
  have a2: "logScore 1 120 = 14"
    using logScore_eqI [of 1 120 14 1 7 69 10] by simp
  have i2: "logScore 39 250 = 67"
    using logScore_eqI [of 39 250 67 2 3 40 27] by simp
  have b1: "computeBreakdown half_point
      = \<lparr>activity = 48, impact = 29, social = 0, style = 0, onchain = 0\<rparr>"
    by (simp add: computeBreakdown_def half_point_def nullish_def logScore_nonpos a1 i1
        clamp01_def clamp_def Math_round_def)
  have b2: "computeBreakdown half_point_lurker
      = \<lparr>activity = 14, impact = 67, social = 0, style = 0, onchain = 0\<rparr>"
    by (simp add: computeBreakdown_def half_point_lurker_def nullish_def logScore_nonpos a2 i2
        clamp01_def clamp_def Math_round_def)
  have w1: "weighted (computeBreakdown half_point) = 7177611906121727 / 281474976710656"
    by (simp add: b1 weighted_def dmul_zero double_steps)
  have w2: "weighted (computeBreakdown half_point_lurker) = 7036874417766399 / 281474976710656"
    by (simp add: b2 weighted_def dmul_zero double_steps)
  have "\<not> override half_point (computeBreakdown half_point)"
    by (simp add: override_def b1) (simp add: half_point_def)
  then have "pickAuraType half_point (computeBreakdown half_point)
      \<in> {BUILDER, CREATOR, INFLUENCER, THINKER, DEGEN}"
    by (rule pickAuraType_not_LURKER)
  then have t1: "pickAuraType half_point (computeBreakdown half_point) \<noteq> LURKER" by auto
  have t2: "pickAuraType half_point_lurker (computeBreakdown half_point_lurker) = LURKER"
    by (rule pickAuraType_override) (simp add: override_def half_point_lurker_def)
  have "score (computeAura half_point) = Math_round (7177611906121727 / 281474976710656)"
    by (simp add: score_computeAura t1 w1 clamp_def)
  then have s1: "score (computeAura half_point) = 25"
    using Math_round_eqI [of 25 "7177611906121727 / 281474976710656"] by simp
  have "score (computeAura half_point_lurker) = Math_round (7740561859543039 / 281474976710656)"
    by (simp add: score_computeAura t2 w2 double_steps clamp_def)
  then have s2: "score (computeAura half_point_lurker) = 27"
    using Math_round_eqI [of 27 "7740561859543039 / 281474976710656"] by simp
  show ?thesis
    using w1 w2 t1 t2 s1 s2 by (simp add: breakdown_computeAura type_computeAura)
qed

end
